theory Spec2Isabelle
  imports Complex_Main "HOL-Library.Word" "HOL-Library.Char_ord" "HOL-Library.List_Lexorder"
    "HOL-Library.Product_Lexorder"
begin

section \<open>Values, dictionaries and time\<close>

text \<open>
  The persistence layer of the fitness dashboard (\<^verbatim>\<open>src/modules/database.py\<close>) and the two
  delete operations of the pages (\<^verbatim>\<open>src/pages/workouts.py\<close>, \<^verbatim>\<open>src/pages/diet.py\<close>) are
  embedded here as functions on an explicit database state.

  A value is what a Python caller can put into a dictionary and what a column can hold:
  \<open>Null\<close> is Python's \<^verbatim>\<open>None\<close> and SQL's NULL, \<open>Integer\<close> a Python int (a bool is the int
  0 or 1), \<open>Float\<close> a Python float read as a real number, \<open>Text\<close> a str, and \<open>Obj\<close>
  any other Python object (a list, a dict), which \<^verbatim>\<open>sqlite3\<close> refuses to bind. An int binds
  only when it fits SQLite's signed 64-bit INTEGER.
\<close>

datatype val = Null | Integer int | Float real | Text string | Obj

definition bindable :: "val \<Rightarrow> bool" where
  "bindable v =
     (case v of
        Obj \<Rightarrow> False
      | Integer n \<Rightarrow> - (2 ^ 63) \<le> n \<and> n < 2 ^ 63
      | _ \<Rightarrow> True)"

type_synonym pydict = "string \<rightharpoonup> val"

text \<open>\<^verbatim>\<open>d.get(k)\<close> and \<^verbatim>\<open>d.get(k, default)\<close>.\<close>

definition dget :: "pydict \<Rightarrow> string \<Rightarrow> val" where
  "dget m k = (case m k of None \<Rightarrow> Null | Some v \<Rightarrow> v)"

definition dget_or :: "pydict \<Rightarrow> string \<Rightarrow> val \<Rightarrow> val" where
  "dget_or m k dflt = (case m k of None \<Rightarrow> dflt | Some v \<Rightarrow> v)"

text \<open>The SQL test \<^verbatim>\<open>column = ?\<close>: NULL equals nothing, not even NULL.\<close>

definition sql_eq :: "val \<Rightarrow> val \<Rightarrow> bool" where
  "sql_eq a b = (a \<noteq> Null \<and> b \<noteq> Null \<and> a = b)"

text \<open>
  A point in time is a number of microseconds (the resolution of \<^verbatim>\<open>datetime\<close>); a calendar
  day is its day number. SQLite compares the ISO texts of two timestamps, which orders them as
  the numbers do, and \<^verbatim>\<open>DATE(t)\<close> is the day of \<open>t\<close>.
\<close>

type_synonym datetime = int

definition timedelta_hours :: "int \<Rightarrow> int" where
  "timedelta_hours h = h * 3600000000"

definition timedelta_days :: "int \<Rightarrow> int" where
  "timedelta_days n = n * 86400000000"

definition date_of :: "datetime \<Rightarrow> int" where
  "date_of t = t div 86400000000"

text \<open>\<^verbatim>\<open>cursor.fetchone()\<close>: the first row of the result, or \<^verbatim>\<open>None\<close>.\<close>

fun fetchone :: "'a list \<Rightarrow> 'a option" where
  "fetchone [] = None"
| "fetchone (r # rs) = Some r"

text \<open>The rowid SQLite gives a new row of a table with an INTEGER PRIMARY KEY: one more than
  the largest in use.\<close>

definition next_rowid :: "nat list \<Rightarrow> nat" where
  "next_rowid ids = Suc (foldr max ids 0)"

section \<open>Password hashing\<close>

text \<open>
  \<^verbatim>\<open>hashlib.sha256\<close> is a parameter \<open>H\<close> from the encoded text to the digest's bytes, and the
  bytes \<^verbatim>\<open>secrets.token_hex\<close> draws are a parameter \<open>rnd\<close>. Hexadecimal encoding and
  \<^verbatim>\<open>str.split\<close> are written out.
\<close>

type_synonym byte = "8 word"

definition hexdigit :: "nat \<Rightarrow> char" where
  "hexdigit n = ''0123456789abcdef'' ! n"

definition hex_byte :: "byte \<Rightarrow> string" where
  "hex_byte b = [hexdigit (unat b div 16), hexdigit (unat b mod 16)]"

definition hexlify :: "byte list \<Rightarrow> string" where
  "hexlify bs = concat (map hex_byte bs)"

definition token_hex :: "byte list \<Rightarrow> string" where
  "token_hex rnd = hexlify rnd"

definition sha256_hexdigest :: "(string \<Rightarrow> byte list) \<Rightarrow> string \<Rightarrow> string" where
  "sha256_hexdigest H s = hexlify (H s)"

fun split_on :: "char \<Rightarrow> string \<Rightarrow> string list" where
  "split_on c [] = [[]]"
| "split_on c (x # xs) =
     (if x = c then [] # split_on c xs
      else (case split_on c xs of
              [] \<Rightarrow> [[x]]
            | p # ps \<Rightarrow> (x # p) # ps))"

definition hash_password :: "(string \<Rightarrow> byte list) \<Rightarrow> byte list \<Rightarrow> string \<Rightarrow> string" where
  "hash_password H rnd password =
     (let salt = token_hex rnd;
          password_hash = sha256_hexdigest H (password @ salt)
      in salt @ '':'' @ password_hash)"

text \<open>Unpacking the split into two names raises \<^verbatim>\<open>ValueError\<close> unless it has exactly two
  parts; the handler returns \<^verbatim>\<open>False\<close>.\<close>

definition verify_password :: "(string \<Rightarrow> byte list) \<Rightarrow> string \<Rightarrow> string \<Rightarrow> bool" where
  "verify_password H password stored_hash =
     (case split_on CHR '':'' stored_hash of
        [salt, password_hash] \<Rightarrow> sha256_hexdigest H (password @ salt) = password_hash
      | _ \<Rightarrow> False)"

section \<open>Tables\<close>

text \<open>
  One record per table, with the columns the code reads or writes. Row ids and foreign keys
  are numbers; a timestamp column filled by the schema's default is a \<open>datetime\<close>; every
  other column holds a \<open>val\<close>. The ten profile columns of a user are kept by column name,
  as \<^verbatim>\<open>update_user_profile\<close> addresses them.
\<close>

record user_row =
  u_id :: nat
  username :: string
  email :: string
  password_hash :: string
  profile :: pydict

record session_row =
  s_user_id :: nat
  session_token :: string
  expires_at :: datetime

record workout_plan_row =
  wp_id :: nat
  wp_user_id :: nat
  wp_name :: val
  wp_description :: val
  wp_duration_weeks :: val
  wp_ai_generated :: val
  wp_gemini_prompt :: val

record workout_day_row =
  wd_id :: nat
  wd_plan_id :: nat
  wd_day_number :: val
  wd_day_name :: val
  wd_focus_area :: val

record exercise_row =
  ex_id :: nat
  ex_name :: val
  ex_category :: val
  ex_muscle_groups :: val
  ex_equipment :: val
  ex_difficulty_level :: val
  ex_instructions :: val

record workout_exercise_row =
  we_day_id :: nat
  we_exercise_id :: nat
  we_sets :: val
  we_reps :: val
  we_weight_kg :: val
  we_rest_seconds :: val
  we_notes :: val

record workout_log_row =
  wl_id :: nat
  wl_user_id :: nat
  wl_day_id :: nat
  wl_completed_at :: datetime
  wl_plan_name :: val
  wl_duration_minutes :: val
  wl_notes :: val

record exercise_log_row =
  el_workout_log_id :: nat
  el_exercise_id :: nat
  el_sets_completed :: val
  el_reps_completed :: val
  el_weight_used_kg :: val
  el_perceived_exertion :: val
  el_notes :: val

record diet_plan_row =
  dp_id :: nat
  dp_user_id :: nat
  dp_name :: val
  dp_calorie_target :: val
  dp_protein_target_g :: val
  dp_carb_target_g :: val
  dp_fat_target_g :: val
  dp_dietary_restrictions :: val
  dp_ai_generated :: val
  dp_gemini_prompt :: val
  dp_created_at :: datetime

record meal_plan_row =
  mp_diet_plan_id :: nat
  mp_day_number :: val
  mp_meal_type :: val
  mp_recipe_name :: val
  mp_ingredients :: val
  mp_instructions :: val
  mp_calories_per_serving :: val
  mp_protein_g :: val
  mp_carbs_g :: val
  mp_fat_g :: val
  mp_servings :: val

record shopping_list_row =
  sl_user_id :: nat
  sl_diet_plan_id :: nat
  sl_item_name :: val
  sl_quantity :: val
  sl_unit :: val
  sl_category :: val

record meal_log_row =
  ml_user_id :: nat
  ml_meal_type :: string
  ml_food_items :: string
  ml_calories_consumed :: real
  ml_protein_g :: real
  ml_carbs_g :: real
  ml_fat_g :: real
  ml_logged_at :: datetime

record db =
  users :: "user_row list"
  user_sessions :: "session_row list"
  workout_plans :: "workout_plan_row list"
  workout_days :: "workout_day_row list"
  exercises :: "exercise_row list"
  workout_exercises :: "workout_exercise_row list"
  workout_logs :: "workout_log_row list"
  exercise_logs :: "exercise_log_row list"
  diet_plans :: "diet_plan_row list"
  meal_plans :: "meal_plan_row list"
  shopping_lists :: "shopping_list_row list"
  meal_logs :: "meal_log_row list"

text \<open>
  The file \<^verbatim>\<open>database/schema.sql\<close> is not among the sources. The constraints it puts on the
  tables other than \<^verbatim>\<open>users\<close> are a parameter: for each table a test that says whether the
  table accepts a new row in the current state (NOT NULL, CHECK, UNIQUE and whatever else the
  schema declares). The constraints of \<^verbatim>\<open>users\<close> are those of the default schema in
  \<^verbatim>\<open>_create_default_schema\<close>.
\<close>

record schema =
  user_sessions_ok :: "session_row \<Rightarrow> db \<Rightarrow> bool"
  workout_plans_ok :: "workout_plan_row \<Rightarrow> db \<Rightarrow> bool"
  workout_days_ok :: "workout_day_row \<Rightarrow> db \<Rightarrow> bool"
  exercises_ok :: "exercise_row \<Rightarrow> db \<Rightarrow> bool"
  workout_exercises_ok :: "workout_exercise_row \<Rightarrow> db \<Rightarrow> bool"
  diet_plans_ok :: "diet_plan_row \<Rightarrow> db \<Rightarrow> bool"
  meal_plans_ok :: "meal_plan_row \<Rightarrow> db \<Rightarrow> bool"
  shopping_lists_ok :: "shopping_list_row \<Rightarrow> db \<Rightarrow> bool"

section \<open>Transactions\<close>

text \<open>
  Every operation runs its statements inside \<^verbatim>\<open>with self.get_connection() as conn\<close>. The
  connection opens a transaction at the first INSERT, UPDATE or DELETE; leaving the block
  normally commits, and leaving it by an exception rolls back to the state at entry. Each
  operation catches the exception and returns its failure value.
\<close>

datatype error = IntegrityError | InterfaceError | TypeError

definition with_connection :: "(db \<Rightarrow> error + 'a \<times> db) \<Rightarrow> db \<Rightarrow> (error + 'a) \<times> db" where
  "with_connection body d =
     (case body d of
        Inl e \<Rightarrow> (Inl e, d)
      | Inr (r, d') \<Rightarrow> (Inr r, d'))"

section \<open>Users and sessions\<close>

definition profile_columns :: "string list" where
  "profile_columns =
     [''first_name'', ''last_name'', ''age'', ''gender'', ''height_cm'', ''weight_kg'',
      ''activity_level'', ''fitness_goals'', ''injuries'', ''experience_level'']"

text \<open>
  \<^verbatim>\<open>SELECT ... FROM users WHERE username = ? OR email = ?\<close>. Both columns are UNIQUE and so
  indexed, and SQLite answers the OR from the two indexes in turn: the rows found by
  username come first, then the rows found by email that were not found already.
\<close>

definition select_users :: "string \<Rightarrow> string \<Rightarrow> user_row list \<Rightarrow> user_row list" where
  "select_users un em rows =
     filter (\<lambda>u. username u = un) rows @
     filter (\<lambda>u. email u = em \<and> username u \<noteq> un) rows"

text \<open>\<^verbatim>\<open>INSERT INTO users\<close> under the default schema: username and email are UNIQUE.\<close>

definition insert_user :: "(nat \<Rightarrow> user_row) \<Rightarrow> db \<Rightarrow> error + nat \<times> db" where
  "insert_user mk c =
     (let r = mk (next_rowid (map u_id (users c))) in
      if list_ex (\<lambda>u. username u = username r \<or> email u = email r) (users c)
      then Inl IntegrityError
      else Inr (u_id r, c\<lparr>users := users c @ [r]\<rparr>))"

definition create_user ::
  "(string \<Rightarrow> byte list) \<Rightarrow> byte list \<Rightarrow> string \<Rightarrow> string \<Rightarrow> string \<Rightarrow> pydict option \<Rightarrow> db
     \<Rightarrow> nat option \<times> db" where
  "create_user H rnd un em password user_data d =
     (case with_connection
        (\<lambda>c. if select_users un em (users c) \<noteq> [] then Inr (None, c)
              else
                let pw_hash = hash_password H rnd password;
                    ud = (case user_data of None \<Rightarrow> Map.empty | Some m \<Rightarrow> m)
                in if \<not> list_all bindable (map (dget ud) profile_columns)
                   then Inl InterfaceError
                   else
                     (case insert_user
                        (\<lambda>i. \<lparr>u_id = i, username = un, email = em, password_hash = pw_hash,
                               profile = (\<lambda>f. if f \<in> set profile_columns
                                                 then Some (dget ud f) else None)\<rparr>) c of
                        Inl e \<Rightarrow> Inl e
                      | Inr (user_id, c') \<Rightarrow> Inr (Some user_id, c'))) d of
        (Inl e, d') \<Rightarrow> (None, d')
      | (Inr r, d') \<Rightarrow> (r, d'))"

definition authenticate_user ::
  "(string \<Rightarrow> byte list) \<Rightarrow> string \<Rightarrow> string \<Rightarrow> db \<Rightarrow> user_row option" where
  "authenticate_user H un password d =
     (case fetchone (select_users un un (users d)) of
        None \<Rightarrow> None
      | Some user \<Rightarrow>
          if verify_password H password (password_hash user) then Some user else None)"

definition insert_session :: "schema \<Rightarrow> session_row \<Rightarrow> db \<Rightarrow> error + db" where
  "insert_session sch r c =
     (if user_sessions_ok sch r c
      then Inr (c\<lparr>user_sessions := user_sessions c @ [r]\<rparr>)
      else Inl IntegrityError)"

text \<open>The token drawn by \<^verbatim>\<open>secrets.token_urlsafe(32)\<close> and the clock's reading are
  parameters.\<close>

definition create_session ::
  "schema \<Rightarrow> string \<Rightarrow> datetime \<Rightarrow> nat \<Rightarrow> int \<Rightarrow> db \<Rightarrow> string option \<times> db" where
  "create_session sch tok now user_id duration_hours d =
     (case with_connection
        (\<lambda>c. let session_token = tok;
                  expires = now + timedelta_hours duration_hours
              in (case insert_session sch
                     \<lparr>s_user_id = user_id, session_token = session_token,
                      expires_at = expires\<rparr> c of
                    Inl e \<Rightarrow> Inl e
                  | Inr c' \<Rightarrow> Inr (session_token, c'))) d of
        (Inl e, d') \<Rightarrow> (None, d')
      | (Inr t, d') \<Rightarrow> (Some t, d'))"

definition default_duration_hours :: int where
  "default_duration_hours = 24"

text \<open>\<^verbatim>\<open>SELECT u.* FROM users u JOIN user_sessions s ON u.id = s.user_id
  WHERE s.session_token = ? AND s.expires_at > ?\<close>.\<close>

definition validate_session :: "string \<Rightarrow> datetime \<Rightarrow> db \<Rightarrow> user_row option" where
  "validate_session tok now d =
     fetchone
       (concat (map (\<lambda>s. filter (\<lambda>u. u_id u = s_user_id s) (users d))
                  (filter (\<lambda>s. session_token s = tok \<and> expires_at s > now)
                     (user_sessions d))))"

text \<open>The loop that collects \<^verbatim>\<open>field = ?\<close> and its value for each known field present in
  the input, and the UPDATE that assigns them to the rows with the given id.\<close>

fun build_update :: "pydict \<Rightarrow> string list \<Rightarrow> (string \<times> val) list" where
  "build_update pd [] = []"
| "build_update pd (f # fs) =
     (case pd f of
        Some v \<Rightarrow> (f, v) # build_update pd fs
      | None \<Rightarrow> build_update pd fs)"

fun apply_set :: "(string \<times> val) list \<Rightarrow> user_row \<Rightarrow> user_row" where
  "apply_set [] u = u"
| "apply_set ((f, v) # as) u = apply_set as (u\<lparr>profile := (profile u)(f \<mapsto> v)\<rparr>)"

definition update_user_profile :: "nat \<Rightarrow> pydict \<Rightarrow> db \<Rightarrow> bool \<times> db" where
  "update_user_profile user_id profile_data d =
     (case with_connection
        (\<lambda>c. let updates = build_update profile_data profile_columns in
              if updates \<noteq> [] then
                if \<not> list_all bindable (map snd updates) then Inl InterfaceError
                else Inr (True,
                       c\<lparr>users := map (\<lambda>u. if u_id u = user_id then apply_set updates u else u)
                                      (users c)\<rparr>)
              else Inr (False, c)) d of
        (Inl e, d') \<Rightarrow> (False, d')
      | (Inr b, d') \<Rightarrow> (b, d'))"

section \<open>Saving plans\<close>

text \<open>The payload of a workout plan: each dictionary with its scalar entries, and the lists
  under \<^verbatim>\<open>'days'\<close> and \<^verbatim>\<open>'exercises'\<close> (empty when the key is absent).\<close>

record day_data =
  day_fields :: pydict
  day_exercises :: "pydict list"

record plan_data =
  plan_fields :: pydict
  plan_days :: "day_data list"

record diet_data =
  diet_fields :: pydict
  diet_meals :: "pydict list"
  diet_shopping_list :: "pydict list"

text \<open>The rows the four INSERT statements of \<^verbatim>\<open>save_workout_plan\<close> build from the payload,
  column by column as in their VALUES tuples.\<close>

definition plan_row :: "nat \<Rightarrow> nat \<Rightarrow> plan_data \<Rightarrow> workout_plan_row" where
  "plan_row i user_id plan =
     (let pf = plan_fields plan
      in \<lparr>wp_id = i,
          wp_user_id = user_id,
          wp_name = dget pf ''name'',
          wp_description = dget pf ''description'',
          wp_duration_weeks = dget pf ''duration_weeks'',
          wp_ai_generated = dget_or pf ''ai_generated'' (Integer 1),
          wp_gemini_prompt = dget pf ''gemini_prompt''\<rparr>)"

definition day_row :: "nat \<Rightarrow> nat \<Rightarrow> day_data \<Rightarrow> workout_day_row" where
  "day_row i workout_plan_id dd =
     (let df = day_fields dd
      in \<lparr>wd_id = i,
          wd_plan_id = workout_plan_id,
          wd_day_number = dget df ''day_number'',
          wd_day_name = dget df ''day_name'',
          wd_focus_area = dget df ''focus_area''\<rparr>)"

definition catalog_row :: "nat \<Rightarrow> pydict \<Rightarrow> exercise_row" where
  "catalog_row i e =
     \<lparr>ex_id = i,
      ex_name = dget e ''name'',
      ex_category = dget e ''category'',
      ex_muscle_groups = dget e ''muscle_groups'',
      ex_equipment = dget e ''equipment'',
      ex_difficulty_level = dget e ''difficulty_level'',
      ex_instructions = dget e ''instructions''\<rparr>"

definition link_row :: "nat \<Rightarrow> nat \<Rightarrow> pydict \<Rightarrow> workout_exercise_row" where
  "link_row day_id exercise_id e =
     \<lparr>we_day_id = day_id,
      we_exercise_id = exercise_id,
      we_sets = dget e ''sets'',
      we_reps = dget e ''reps'',
      we_weight_kg = dget e ''weight_kg'',
      we_rest_seconds = dget e ''rest_seconds'',
      we_notes = dget e ''notes''\<rparr>"

definition insert_workout_plan ::
  "schema \<Rightarrow> nat \<Rightarrow> plan_data \<Rightarrow> db \<Rightarrow> error + nat \<times> db" where
  "insert_workout_plan sch user_id plan c =
     (let r = plan_row (next_rowid (map wp_id (workout_plans c))) user_id plan
      in if \<not> list_all bindable
              [wp_name r, wp_description r, wp_duration_weeks r, wp_ai_generated r,
               wp_gemini_prompt r]
         then Inl InterfaceError
         else if workout_plans_ok sch r c
         then Inr (wp_id r, c\<lparr>workout_plans := workout_plans c @ [r]\<rparr>)
         else Inl IntegrityError)"

definition insert_workout_day ::
  "schema \<Rightarrow> nat \<Rightarrow> day_data \<Rightarrow> db \<Rightarrow> error + nat \<times> db" where
  "insert_workout_day sch workout_plan_id dd c =
     (let r = day_row (next_rowid (map wd_id (workout_days c))) workout_plan_id dd
      in if \<not> list_all bindable [wd_day_number r, wd_day_name r, wd_focus_area r]
         then Inl InterfaceError
         else if workout_days_ok sch r c
         then Inr (wd_id r, c\<lparr>workout_days := workout_days c @ [r]\<rparr>)
         else Inl IntegrityError)"

text \<open>
  Modelled from the spec: the missing schema's declaration of the \<^verbatim>\<open>exercises\<close> table. The
  spec calls an exercise a de-duplicated catalog entity identified by name and the insert an
  insert-if-absent keyed by exercise name, so the \<^verbatim>\<open>name\<close> column is UNIQUE. Under
  \<^verbatim>\<open>INSERT OR IGNORE\<close> a row that breaks this or another constraint of the table is
  skipped without an error.
\<close>

definition insert_or_ignore_exercise :: "schema \<Rightarrow> pydict \<Rightarrow> db \<Rightarrow> error + db" where
  "insert_or_ignore_exercise sch e c =
     (let r = catalog_row (next_rowid (map ex_id (exercises c))) e
      in if \<not> list_all bindable
              [ex_name r, ex_category r, ex_muscle_groups r, ex_equipment r,
               ex_difficulty_level r, ex_instructions r]
         then Inl InterfaceError
         else if list_ex (\<lambda>x. sql_eq (ex_name x) (ex_name r)) (exercises c)
                 \<or> \<not> exercises_ok sch r c
         then Inr c
         else Inr (c\<lparr>exercises := exercises c @ [r]\<rparr>))"

text \<open>\<^verbatim>\<open>SELECT id FROM exercises WHERE name = ?\<close>.\<close>

definition select_exercise_ids :: "val \<Rightarrow> db \<Rightarrow> nat list" where
  "select_exercise_ids n c = map ex_id (filter (\<lambda>x. sql_eq (ex_name x) n) (exercises c))"

definition insert_workout_exercise ::
  "schema \<Rightarrow> nat \<Rightarrow> nat \<Rightarrow> pydict \<Rightarrow> db \<Rightarrow> error + db" where
  "insert_workout_exercise sch day_id exercise_id e c =
     (let r = link_row day_id exercise_id e
      in if \<not> list_all bindable
              [we_sets r, we_reps r, we_weight_kg r, we_rest_seconds r, we_notes r]
         then Inl InterfaceError
         else if workout_exercises_ok sch r c
         then Inr (c\<lparr>workout_exercises := workout_exercises c @ [r]\<rparr>)
         else Inl IntegrityError)"

text \<open>The inner loop over a day's exercises. Subscripting the \<^verbatim>\<open>None\<close> that
  \<^verbatim>\<open>fetchone\<close> returns for an empty result raises \<^verbatim>\<open>TypeError\<close>.\<close>

fun save_exercises :: "schema \<Rightarrow> nat \<Rightarrow> pydict list \<Rightarrow> db \<Rightarrow> error + db" where
  "save_exercises sch day_id [] c = Inr c"
| "save_exercises sch day_id (e # es) c =
     (case insert_or_ignore_exercise sch e c of
        Inl err \<Rightarrow> Inl err
      | Inr c1 \<Rightarrow>
          (case fetchone (select_exercise_ids (dget e ''name'') c1) of
             None \<Rightarrow> Inl TypeError
           | Some exercise_id \<Rightarrow>
               (case insert_workout_exercise sch day_id exercise_id e c1 of
                  Inl err \<Rightarrow> Inl err
                | Inr c2 \<Rightarrow> save_exercises sch day_id es c2)))"

text \<open>The outer loop over the plan's days.\<close>

fun save_days :: "schema \<Rightarrow> nat \<Rightarrow> day_data list \<Rightarrow> db \<Rightarrow> error + db" where
  "save_days sch workout_plan_id [] c = Inr c"
| "save_days sch workout_plan_id (dd # dds) c =
     (case insert_workout_day sch workout_plan_id dd c of
        Inl err \<Rightarrow> Inl err
      | Inr (day_id, c1) \<Rightarrow>
          (case save_exercises sch day_id (day_exercises dd) c1 of
             Inl err \<Rightarrow> Inl err
           | Inr c2 \<Rightarrow> save_days sch workout_plan_id dds c2))"

definition save_workout_plan :: "schema \<Rightarrow> nat \<Rightarrow> plan_data \<Rightarrow> db \<Rightarrow> nat option \<times> db" where
  "save_workout_plan sch user_id plan d =
     (case with_connection
        (\<lambda>c. case insert_workout_plan sch user_id plan c of
                Inl err \<Rightarrow> Inl err
              | Inr (workout_plan_id, c1) \<Rightarrow>
                  (case save_days sch workout_plan_id (plan_days plan) c1 of
                     Inl err \<Rightarrow> Inl err
                   | Inr c2 \<Rightarrow> Inr (workout_plan_id, c2))) d of
        (Inl err, d') \<Rightarrow> (None, d')
      | (Inr workout_plan_id, d') \<Rightarrow> (Some workout_plan_id, d'))"

text \<open>The diet plan's row takes its \<^verbatim>\<open>created_at\<close> from the clock at the insert.\<close>

definition diet_row :: "nat \<Rightarrow> datetime \<Rightarrow> nat \<Rightarrow> diet_data \<Rightarrow> diet_plan_row" where
  "diet_row i now user_id diet =
     (let f = diet_fields diet
      in \<lparr>dp_id = i,
          dp_user_id = user_id,
          dp_name = dget f ''name'',
          dp_calorie_target = dget f ''calorie_target'',
          dp_protein_target_g = dget f ''protein_target_g'',
          dp_carb_target_g = dget f ''carb_target_g'',
          dp_fat_target_g = dget f ''fat_target_g'',
          dp_dietary_restrictions = dget f ''dietary_restrictions'',
          dp_ai_generated = dget_or f ''ai_generated'' (Integer 1),
          dp_gemini_prompt = dget f ''gemini_prompt'',
          dp_created_at = now\<rparr>)"

definition insert_diet_plan ::
  "schema \<Rightarrow> datetime \<Rightarrow> nat \<Rightarrow> diet_data \<Rightarrow> db \<Rightarrow> error + nat \<times> db" where
  "insert_diet_plan sch now user_id diet c =
     (let r = diet_row (next_rowid (map dp_id (diet_plans c))) now user_id diet
      in if \<not> list_all bindable
              [dp_name r, dp_calorie_target r, dp_protein_target_g r, dp_carb_target_g r,
               dp_fat_target_g r, dp_dietary_restrictions r, dp_ai_generated r,
               dp_gemini_prompt r]
         then Inl InterfaceError
         else if diet_plans_ok sch r c
         then Inr (dp_id r, c\<lparr>diet_plans := diet_plans c @ [r]\<rparr>)
         else Inl IntegrityError)"

definition meal_row :: "nat \<Rightarrow> pydict \<Rightarrow> meal_plan_row" where
  "meal_row diet_plan_id m =
     \<lparr>mp_diet_plan_id = diet_plan_id,
      mp_day_number = dget m ''day_number'',
      mp_meal_type = dget m ''meal_type'',
      mp_recipe_name = dget m ''recipe_name'',
      mp_ingredients = dget m ''ingredients'',
      mp_instructions = dget m ''instructions'',
      mp_calories_per_serving = dget m ''calories_per_serving'',
      mp_protein_g = dget m ''protein_g'',
      mp_carbs_g = dget m ''carbs_g'',
      mp_fat_g = dget m ''fat_g'',
      mp_servings = dget_or m ''servings'' (Integer 1)\<rparr>"

definition insert_meal_plan :: "schema \<Rightarrow> nat \<Rightarrow> pydict \<Rightarrow> db \<Rightarrow> error + db" where
  "insert_meal_plan sch diet_plan_id m c =
     (let r = meal_row diet_plan_id m
      in if \<not> list_all bindable
              [mp_day_number r, mp_meal_type r, mp_recipe_name r, mp_ingredients r,
               mp_instructions r, mp_calories_per_serving r, mp_protein_g r, mp_carbs_g r,
               mp_fat_g r, mp_servings r]
         then Inl InterfaceError
         else if meal_plans_ok sch r c
         then Inr (c\<lparr>meal_plans := meal_plans c @ [r]\<rparr>)
         else Inl IntegrityError)"

definition shopping_row :: "nat \<Rightarrow> nat \<Rightarrow> pydict \<Rightarrow> shopping_list_row" where
  "shopping_row user_id diet_plan_id i =
     \<lparr>sl_user_id = user_id,
      sl_diet_plan_id = diet_plan_id,
      sl_item_name = dget i ''item_name'',
      sl_quantity = dget i ''quantity'',
      sl_unit = dget i ''unit'',
      sl_category = dget i ''category''\<rparr>"

definition insert_shopping_item :: "schema \<Rightarrow> nat \<Rightarrow> nat \<Rightarrow> pydict \<Rightarrow> db \<Rightarrow> error + db" where
  "insert_shopping_item sch user_id diet_plan_id i c =
     (let r = shopping_row user_id diet_plan_id i
      in if \<not> list_all bindable [sl_item_name r, sl_quantity r, sl_unit r, sl_category r]
         then Inl InterfaceError
         else if shopping_lists_ok sch r c
         then Inr (c\<lparr>shopping_lists := shopping_lists c @ [r]\<rparr>)
         else Inl IntegrityError)"

fun save_meals :: "schema \<Rightarrow> nat \<Rightarrow> pydict list \<Rightarrow> db \<Rightarrow> error + db" where
  "save_meals sch diet_plan_id [] c = Inr c"
| "save_meals sch diet_plan_id (m # ms) c =
     (case insert_meal_plan sch diet_plan_id m c of
        Inl err \<Rightarrow> Inl err
      | Inr c1 \<Rightarrow> save_meals sch diet_plan_id ms c1)"

fun save_shopping_list :: "schema \<Rightarrow> nat \<Rightarrow> nat \<Rightarrow> pydict list \<Rightarrow> db \<Rightarrow> error + db" where
  "save_shopping_list sch user_id diet_plan_id [] c = Inr c"
| "save_shopping_list sch user_id diet_plan_id (i # is) c =
     (case insert_shopping_item sch user_id diet_plan_id i c of
        Inl err \<Rightarrow> Inl err
      | Inr c1 \<Rightarrow> save_shopping_list sch user_id diet_plan_id is c1)"

definition save_diet_plan ::
  "schema \<Rightarrow> datetime \<Rightarrow> nat \<Rightarrow> diet_data \<Rightarrow> db \<Rightarrow> nat option \<times> db" where
  "save_diet_plan sch now user_id diet d =
     (case with_connection
        (\<lambda>c. case insert_diet_plan sch now user_id diet c of
                Inl err \<Rightarrow> Inl err
              | Inr (diet_plan_id, c1) \<Rightarrow>
                  (case save_meals sch diet_plan_id (diet_meals diet) c1 of
                     Inl err \<Rightarrow> Inl err
                   | Inr c2 \<Rightarrow>
                       (case save_shopping_list sch user_id diet_plan_id
                               (diet_shopping_list diet) c2 of
                          Inl err \<Rightarrow> Inl err
                        | Inr c3 \<Rightarrow> Inr (diet_plan_id, c3)))) d of
        (Inl err, d') \<Rightarrow> (None, d')
      | (Inr diet_plan_id, d') \<Rightarrow> (Some diet_plan_id, d'))"


text \<open>
  What a successful save leaves for one exercise of a day and for one day of a plan: the
  link row built from the exercise's entries, pointing at a catalog row of the exercise's
  name; and the day's row built from the day's entries, with one such link per exercise, in
  order.
\<close>

definition link_saved :: "db \<Rightarrow> nat \<Rightarrow> workout_exercise_row \<Rightarrow> pydict \<Rightarrow> bool" where
  "link_saved c day_id l e =
     (l = link_row day_id (we_exercise_id l) e
      \<and> list_ex (\<lambda>x. ex_id x = we_exercise_id l \<and> sql_eq (ex_name x) (dget e ''name''))
           (exercises c))"

definition day_saved ::
  "db \<Rightarrow> nat \<Rightarrow> workout_day_row \<times> workout_exercise_row list \<Rightarrow> day_data \<Rightarrow> bool" where
  "day_saved c workout_plan_id saved dd =
     (case saved of (r, ls) \<Rightarrow>
        r = day_row (wd_id r) workout_plan_id dd
        \<and> list_all2 (link_saved c (wd_id r)) ls (day_exercises dd))"

section \<open>Deleting plans\<close>

text \<open>The two subqueries of \<^verbatim>\<open>delete_workout_plan\<close>: the ids of the plan's days, and the ids
  of the workout logs of those days.\<close>

definition plan_day_ids :: "nat \<Rightarrow> db \<Rightarrow> nat list" where
  "plan_day_ids plan_id c =
     map wd_id (filter (\<lambda>w. wd_plan_id w = plan_id) (workout_days c))"

definition plan_log_ids :: "nat \<Rightarrow> db \<Rightarrow> nat list" where
  "plan_log_ids plan_id c =
     map wl_id (filter (\<lambda>l. wl_day_id l \<in> set (plan_day_ids plan_id c)) (workout_logs c))"

definition delete_exercise_logs :: "nat \<Rightarrow> db \<Rightarrow> db" where
  "delete_exercise_logs plan_id c =
     c\<lparr>exercise_logs :=
         filter (\<lambda>e. el_workout_log_id e \<notin> set (plan_log_ids plan_id c)) (exercise_logs c)\<rparr>"

definition delete_workout_logs :: "nat \<Rightarrow> db \<Rightarrow> db" where
  "delete_workout_logs plan_id c =
     c\<lparr>workout_logs :=
         filter (\<lambda>l. wl_day_id l \<notin> set (plan_day_ids plan_id c)) (workout_logs c)\<rparr>"

definition delete_workout_exercises :: "nat \<Rightarrow> db \<Rightarrow> db" where
  "delete_workout_exercises plan_id c =
     c\<lparr>workout_exercises :=
         filter (\<lambda>x. we_day_id x \<notin> set (plan_day_ids plan_id c)) (workout_exercises c)\<rparr>"

definition delete_workout_days :: "nat \<Rightarrow> db \<Rightarrow> db" where
  "delete_workout_days plan_id c =
     c\<lparr>workout_days := filter (\<lambda>w. wd_plan_id w \<noteq> plan_id) (workout_days c)\<rparr>"

definition delete_workout_plan_row :: "nat \<Rightarrow> db \<Rightarrow> db" where
  "delete_workout_plan_row plan_id c =
     c\<lparr>workout_plans := filter (\<lambda>p. wp_id p \<noteq> plan_id) (workout_plans c)\<rparr>"

text \<open>The statements of \<^verbatim>\<open>delete_workout_plan\<close> in the order the source executes them, and
  their execution one after the other on the connection.\<close>

definition delete_workout_plan_statements :: "nat \<Rightarrow> (db \<Rightarrow> db) list" where
  "delete_workout_plan_statements plan_id =
     [delete_exercise_logs plan_id,
      delete_workout_logs plan_id,
      delete_workout_exercises plan_id,
      delete_workout_days plan_id,
      delete_workout_plan_row plan_id]"

definition execute_all :: "(db \<Rightarrow> db) list \<Rightarrow> db \<Rightarrow> db" where
  "execute_all stmts c = fold (\<lambda>stmt c'. stmt c') stmts c"

definition delete_workout_plan :: "nat \<Rightarrow> db \<Rightarrow> bool \<times> db" where
  "delete_workout_plan plan_id d =
     (case with_connection
        (\<lambda>c. Inr (True, execute_all (delete_workout_plan_statements plan_id) c)) d of
        (Inl e, d') \<Rightarrow> (False, d')
      | (Inr b, d') \<Rightarrow> (b, d'))"

definition delete_meal_plans :: "nat \<Rightarrow> db \<Rightarrow> db" where
  "delete_meal_plans plan_id c =
     c\<lparr>meal_plans := filter (\<lambda>m. mp_diet_plan_id m \<noteq> plan_id) (meal_plans c)\<rparr>"

definition delete_shopping_lists :: "nat \<Rightarrow> db \<Rightarrow> db" where
  "delete_shopping_lists plan_id c =
     c\<lparr>shopping_lists := filter (\<lambda>s. sl_diet_plan_id s \<noteq> plan_id) (shopping_lists c)\<rparr>"

definition delete_diet_plan_row :: "nat \<Rightarrow> db \<Rightarrow> db" where
  "delete_diet_plan_row plan_id c =
     c\<lparr>diet_plans := filter (\<lambda>p. dp_id p \<noteq> plan_id) (diet_plans c)\<rparr>"

definition delete_diet_plan_statements :: "nat \<Rightarrow> (db \<Rightarrow> db) list" where
  "delete_diet_plan_statements plan_id =
     [delete_meal_plans plan_id,
      delete_shopping_lists plan_id,
      delete_diet_plan_row plan_id]"

definition delete_diet_plan :: "nat \<Rightarrow> db \<Rightarrow> bool \<times> db" where
  "delete_diet_plan plan_id d =
     (case with_connection
        (\<lambda>c. Inr (True, execute_all (delete_diet_plan_statements plan_id) c)) d of
        (Inl e, d') \<Rightarrow> (False, d')
      | (Inr b, d') \<Rightarrow> (b, d'))"

text \<open>
  Every owned row points at a parent that exists: an exercise log at its workout log, a
  workout log and an exercise link at their day, a day at its plan; a meal and a
  shopping-list item at their diet plan. These are the ownership relations the statements
  above follow.
\<close>

definition workout_refs_ok :: "db \<Rightarrow> bool" where
  "workout_refs_ok c =
     (list_all (\<lambda>e. el_workout_log_id e \<in> set (map wl_id (workout_logs c))) (exercise_logs c)
      \<and> list_all (\<lambda>l. wl_day_id l \<in> set (map wd_id (workout_days c))) (workout_logs c)
      \<and> list_all (\<lambda>x. we_day_id x \<in> set (map wd_id (workout_days c))) (workout_exercises c)
      \<and> list_all (\<lambda>w. wd_plan_id w \<in> set (map wp_id (workout_plans c))) (workout_days c))"

definition diet_refs_ok :: "db \<Rightarrow> bool" where
  "diet_refs_ok c =
     (list_all (\<lambda>m. mp_diet_plan_id m \<in> set (map dp_id (diet_plans c))) (meal_plans c)
      \<and> list_all (\<lambda>s. sl_diet_plan_id s \<in> set (map dp_id (diet_plans c))) (shopping_lists c))"


section \<open>Nutrition logs and workout history\<close>

definition days_map :: "(string \<times> int) list" where
  "days_map =
     [(''1 Week'', 7), (''2 Weeks'', 14), (''1 Month'', 30), (''3 Months'', 90),
      (''6 Months'', 180), (''1 Year'', 365)]"

text \<open>\<^verbatim>\<open>days_map.get(date_range, 30)\<close>.\<close>

definition days_for :: "string \<Rightarrow> int" where
  "days_for date_range = (case map_of days_map date_range of None \<Rightarrow> 30 | Some n \<Rightarrow> n)"

text \<open>\<^verbatim>\<open>SELECT calorie_target FROM diet_plans WHERE user_id = ? ORDER BY created_at DESC
  LIMIT 1\<close>; among plans created at the same instant the sort keeps the table's order.\<close>

definition select_calorie_target :: "nat \<Rightarrow> db \<Rightarrow> val list" where
  "select_calorie_target user_id c =
     map dp_calorie_target
       (take 1 (sort_key (\<lambda>p. - dp_created_at p)
                  (filter (\<lambda>p. dp_user_id p = user_id) (diet_plans c))))"

text \<open>The data frame \<^verbatim>\<open>get_nutrition_logs\<close> returns: one row per day, and the
  \<^verbatim>\<open>target_calories\<close> column, the same in every row, when it was added.\<close>

record nutrition_row =
  nr_date :: int
  nr_calories :: real
  nr_protein :: real
  nr_carbs :: real
  nr_fats :: real

record nutrition_frame =
  nf_rows :: "nutrition_row list"
  nf_target_calories :: "val option"

definition get_nutrition_logs :: "nat \<Rightarrow> string \<Rightarrow> datetime \<Rightarrow> db \<Rightarrow> nutrition_frame" where
  "get_nutrition_logs user_id date_range now d =
     (let days = days_for date_range;
          start_date = date_of (now - timedelta_days days);
          target_calories =
            (case fetchone (select_calorie_target user_id d) of
               None \<Rightarrow> Null
             | Some t \<Rightarrow> t);
          selected = filter (\<lambda>m. ml_user_id m = user_id \<and> date_of (ml_logged_at m) \<ge> start_date)
                       (meal_logs d);
          dates = sort (remdups (map (\<lambda>m. date_of (ml_logged_at m)) selected));
          df = map (\<lambda>dt. let g = filter (\<lambda>m. date_of (ml_logged_at m) = dt) selected
                          in \<lparr>nr_date = dt,
                              nr_calories = sum_list (map ml_calories_consumed g),
                              nr_protein = sum_list (map ml_protein_g g),
                              nr_carbs = sum_list (map ml_carbs_g g),
                              nr_fats = sum_list (map ml_fat_g g)\<rparr>) dates
      in \<lparr>nf_rows = df,
          nf_target_calories =
            (if df \<noteq> [] \<and> target_calories \<noteq> Null then Some target_calories else None)\<rparr>)"

text \<open>The output row of one day over the selected meal logs, as the select list of the
  nutrition query computes it.\<close>

definition day_totals :: "meal_log_row list \<Rightarrow> int \<Rightarrow> nutrition_row" where
  "day_totals sel dt =
     (let g = filter (\<lambda>m. date_of (ml_logged_at m) = dt) sel
      in \<lparr>nr_date = dt,
          nr_calories = sum_list (map ml_calories_consumed g),
          nr_protein = sum_list (map ml_protein_g g),
          nr_carbs = sum_list (map ml_carbs_g g),
          nr_fats = sum_list (map ml_fat_g g)\<rparr>)"

text \<open>
  The place of a value in SQLite's sort order, which GROUP BY and ORDER BY use: NULL first,
  then numbers by their numeric value (an integer and a float of the same value compare
  equal), then text byte by byte, then everything else.
\<close>

definition sort_rank :: "val \<Rightarrow> nat \<times> real \<times> string" where
  "sort_rank v =
     (case v of
        Null \<Rightarrow> (0, 0, [])
      | Integer n \<Rightarrow> (1, real_of_int n, [])
      | Float x \<Rightarrow> (1, x, [])
      | Text s \<Rightarrow> (2, 0, s)
      | Obj \<Rightarrow> (3, 0, []))"

text \<open>
  \<^verbatim>\<open>get_workout_history\<close>: the join of the exercise logs with their workout log and its
  day, for the user's workout logs in the window, grouped by calendar day, plan name and
  day number. SQLite sorts the rows by the GROUP BY key to form the groups and returns the
  groups in that order, which also is ascending by day as the ORDER BY asks. The select list
  (SUM, COUNT DISTINCT and AVG over SQLite's arithmetic on the rows of a group) is the
  parameter \<open>agg\<close>, which gives the output row of a group.
\<close>

type_synonym history_join = "workout_log_row \<times> exercise_log_row \<times> workout_day_row"

type_synonym history_group_key = "int \<times> (nat \<times> real \<times> string) \<times> (nat \<times> real \<times> string)"

definition history_key :: "history_join \<Rightarrow> history_group_key" where
  "history_key j =
     (case j of (wl, el, wd) \<Rightarrow>
        (date_of (wl_completed_at wl), sort_rank (wl_plan_name wl), sort_rank (wd_day_number wd)))"

definition history_rows :: "nat \<Rightarrow> int \<Rightarrow> db \<Rightarrow> history_join list" where
  "history_rows user_id start_date d =
     concat (map (\<lambda>el.
       concat (map (\<lambda>wl.
         map (\<lambda>wd. (wl, el, wd))
           (filter (\<lambda>wd. wl_day_id wl = wd_id wd) (workout_days d)))
         (filter (\<lambda>wl. wl_id wl = el_workout_log_id el
                       \<and> wl_user_id wl = user_id \<and> date_of (wl_completed_at wl) \<ge> start_date)
            (workout_logs d))))
       (exercise_logs d))"

definition get_workout_history ::
  "(history_join list \<Rightarrow> 'r) \<Rightarrow> nat \<Rightarrow> string \<Rightarrow> datetime \<Rightarrow> db \<Rightarrow> 'r list" where
  "get_workout_history agg user_id date_range now d =
     (let days = days_for date_range;
          start_date = date_of (now - timedelta_days days);
          joined = history_rows user_id start_date d;
          ks = sort (remdups (map history_key joined))
      in map (\<lambda>k. agg (filter (\<lambda>j. history_key j = k) joined)) ks)"

section \<open>Sample data\<close>

text \<open>Concrete inputs on which the theorems below are instantiated: a digest function, an
  empty database, and a database with one registered user whose email reads like a
  username.\<close>

definition sample_sha :: "string \<Rightarrow> byte list" where
  "sample_sha s = [of_nat (length s), 7]"

definition empty_db :: db where
  "empty_db =
     \<lparr>users = [], user_sessions = [], workout_plans = [], workout_days = [], exercises = [],
      workout_exercises = [], workout_logs = [], exercise_logs = [], diet_plans = [],
      meal_plans = [], shopping_lists = [], meal_logs = []\<rparr>"

definition bob :: user_row where
  "bob = \<lparr>u_id = 1, username = ''bob'', email = ''alice'',
          password_hash = hash_password sample_sha [1] ''hunter2'', profile = Map.empty\<rparr>"

definition db_bob :: db where
  "db_bob = empty_db\<lparr>users := [bob]\<rparr>"

text \<open>A schema that accepts every row, and a user with a weight and a goal on record.\<close>

definition open_schema :: schema where
  "open_schema =
     \<lparr>user_sessions_ok = (\<lambda>r c. True), workout_plans_ok = (\<lambda>r c. True),
      workout_days_ok = (\<lambda>r c. True), exercises_ok = (\<lambda>r c. True),
      workout_exercises_ok = (\<lambda>r c. True), diet_plans_ok = (\<lambda>r c. True),
      meal_plans_ok = (\<lambda>r c. True), shopping_lists_ok = (\<lambda>r c. True)\<rparr>"

definition carol :: user_row where
  "carol = \<lparr>u_id = 1, username = ''carol'', email = ''c@x.com'',
            password_hash = hash_password sample_sha [2] ''pass123'',
            profile = [''weight_kg'' \<mapsto> Integer 70, ''fitness_goals'' \<mapsto> Text ''lose weight'']\<rparr>"

definition db_carol :: db where
  "db_carol = empty_db\<lparr>users := [carol]\<rparr>"

text \<open>Sample meal logs and diet plans: two meals of one user on day 100, a meal of another
  user, a meal outside the week before day 103, and two plans of the first user.\<close>

definition meal_at :: "nat \<Rightarrow> real \<Rightarrow> datetime \<Rightarrow> meal_log_row" where
  "meal_at user_id calories t =
     \<lparr>ml_user_id = user_id, ml_meal_type = ''Lunch'', ml_food_items = ''rice'',
      ml_calories_consumed = calories, ml_protein_g = 20, ml_carbs_g = 60, ml_fat_g = 10,
      ml_logged_at = t\<rparr>"

definition diet_plan_at :: "nat \<Rightarrow> nat \<Rightarrow> val \<Rightarrow> datetime \<Rightarrow> diet_plan_row" where
  "diet_plan_at i user_id target t =
     \<lparr>dp_id = i, dp_user_id = user_id, dp_name = Text ''plan'', dp_calorie_target = target,
      dp_protein_target_g = Null, dp_carb_target_g = Null, dp_fat_target_g = Null,
      dp_dietary_restrictions = Null, dp_ai_generated = Integer 1, dp_gemini_prompt = Null,
      dp_created_at = t\<rparr>"

definition db_meals :: db where
  "db_meals = empty_db
     \<lparr>diet_plans := [diet_plan_at 1 1 (Integer 2000) 10, diet_plan_at 2 1 (Integer 2200) 20],
      meal_logs := [meal_at 1 500 8643600000000, meal_at 1 600 8712000000000,
                    meal_at 2 999 8643600000000, meal_at 1 300 4320000000000]\<rparr>"

definition sample_now :: datetime where
  "sample_now = 8899200000000"

text \<open>Sample workout rows: two plans of one user that share the catalog row
  \<open>Push-ups\<close>, with their days, links and logs; and a database with meals and shopping-list
  items of two diet plans.\<close>

definition wplan :: "nat \<Rightarrow> nat \<Rightarrow> workout_plan_row" where
  "wplan i u =
     \<lparr>wp_id = i, wp_user_id = u, wp_name = Text ''Strength'', wp_description = Null,
      wp_duration_weeks = Integer 4, wp_ai_generated = Integer 1, wp_gemini_prompt = Null\<rparr>"

definition wday :: "nat \<Rightarrow> nat \<Rightarrow> workout_day_row" where
  "wday i p =
     \<lparr>wd_id = i, wd_plan_id = p, wd_day_number = Integer (int i), wd_day_name = Null,
      wd_focus_area = Null\<rparr>"

definition pushups_row :: exercise_row where
  "pushups_row =
     \<lparr>ex_id = 1, ex_name = Text ''Push-ups'', ex_category = Null, ex_muscle_groups = Null,
      ex_equipment = Null, ex_difficulty_level = Null, ex_instructions = Null\<rparr>"

definition wlink :: "nat \<Rightarrow> nat \<Rightarrow> workout_exercise_row" where
  "wlink day ex =
     \<lparr>we_day_id = day, we_exercise_id = ex, we_sets = Integer 3, we_reps = Text ''8-12'',
      we_weight_kg = Null, we_rest_seconds = Integer 60, we_notes = Null\<rparr>"

definition wlog :: "nat \<Rightarrow> nat \<Rightarrow> nat \<Rightarrow> workout_log_row" where
  "wlog i u day =
     \<lparr>wl_id = i, wl_user_id = u, wl_day_id = day, wl_completed_at = 0, wl_plan_name = Null,
      wl_duration_minutes = Integer 45, wl_notes = Null\<rparr>"

definition elog :: "nat \<Rightarrow> nat \<Rightarrow> exercise_log_row" where
  "elog lg ex =
     \<lparr>el_workout_log_id = lg, el_exercise_id = ex, el_sets_completed = Integer 3,
      el_reps_completed = Text ''10'', el_weight_used_kg = Float 0, el_perceived_exertion = Null,
      el_notes = Null\<rparr>"

definition db_gym :: db where
  "db_gym = empty_db
     \<lparr>workout_plans := [wplan 1 1, wplan 2 1],
      workout_days := [wday 1 1, wday 2 1, wday 3 2],
      exercises := [pushups_row],
      workout_exercises := [wlink 1 1, wlink 2 1, wlink 3 1],
      workout_logs := [wlog 1 1 1, wlog 2 1 3],
      exercise_logs := [elog 1 1, elog 2 1]\<rparr>"

definition db_food :: db where
  "db_food = db_meals
     \<lparr>meal_plans := [meal_row 1 Map.empty, meal_row 2 Map.empty],
      shopping_lists := [shopping_row 1 1 Map.empty, shopping_row 1 2 Map.empty]\<rparr>"

text \<open>Sample workout logs on top of the sample meals: for the first user two sessions on day
  100 (on the days numbered 1 and 2 of a plan) and one on day 60, and a session of another
  user, with their exercise logs in no particular order.\<close>

definition db_history :: db where
  "db_history = db_meals
     \<lparr>workout_days := [wday 1 1, wday 2 1],
      workout_logs := [(wlog 1 1 1)\<lparr>wl_completed_at := 8643600000000\<rparr>,
                       (wlog 2 1 2)\<lparr>wl_completed_at := 5184000000000\<rparr>,
                       (wlog 3 1 2)\<lparr>wl_completed_at := 8712000000000\<rparr>,
                       (wlog 4 2 1)\<lparr>wl_completed_at := 8712000000000\<rparr>],
      exercise_logs := [elog 3 1, elog 1 1, elog 2 1, elog 4 1, elog 1 1]\<rparr>"

text \<open>Sample payloads: a plan of two days that both include \<open>Push-ups\<close>, the same plan
  with a list where the second day's link expects a note, and a diet plan with and without a
  value that cannot be bound.\<close>

definition pushups_entry :: pydict where
  "pushups_entry = [''name'' \<mapsto> Text ''Push-ups'', ''sets'' \<mapsto> Integer 3, ''reps'' \<mapsto> Text ''8-12'']"

definition squats_entry :: pydict where
  "squats_entry = [''name'' \<mapsto> Text ''Squats'', ''sets'' \<mapsto> Integer 4]"

definition pushups_plan :: plan_data where
  "pushups_plan =
     \<lparr>plan_fields = [''name'' \<mapsto> Text ''Strength''],
      plan_days =
        [\<lparr>day_fields = [''day_number'' \<mapsto> Integer 1], day_exercises = [pushups_entry]\<rparr>,
         \<lparr>day_fields = [''day_number'' \<mapsto> Integer 2],
          day_exercises = [squats_entry, pushups_entry]\<rparr>]\<rparr>"

definition broken_plan :: plan_data where
  "broken_plan =
     \<lparr>plan_fields = [''name'' \<mapsto> Text ''Strength''],
      plan_days =
        [\<lparr>day_fields = [''day_number'' \<mapsto> Integer 1], day_exercises = [pushups_entry]\<rparr>,
         \<lparr>day_fields = [''day_number'' \<mapsto> Integer 2],
          day_exercises = [pushups_entry(''notes'' \<mapsto> Obj)]\<rparr>]\<rparr>"

definition sample_diet :: diet_data where
  "sample_diet =
     \<lparr>diet_fields = [''name'' \<mapsto> Text ''Lean'', ''calorie_target'' \<mapsto> Integer 2000],
      diet_meals = [[''meal_type'' \<mapsto> Text ''Breakfast''], [''meal_type'' \<mapsto> Text ''Lunch'']],
      diet_shopping_list = [[''item_name'' \<mapsto> Text ''Oats'']]\<rparr>"

definition broken_diet :: diet_data where
  "broken_diet =
     \<lparr>diet_fields = [''name'' \<mapsto> Text ''Lean''],
      diet_meals = [[''meal_type'' \<mapsto> Text ''Breakfast'']],
      diet_shopping_list = [[''item_name'' \<mapsto> Obj]]\<rparr>"

section \<open>Lemmas on password hashing\<close>

lemma split_on_nonempty: "split_on c s \<noteq> []"
  by (induction s) (auto split: list.splits)

lemma split_on_no_sep: "c \<notin> set s \<Longrightarrow> split_on c s = [s]"
  by (induction s) auto

lemma split_on_append: "c \<notin> set a \<Longrightarrow> split_on c (a @ c # b) = a # split_on c b"
  by (induction a) auto

lemma split_on_singleton: "split_on c s = [a] \<Longrightarrow> s = a \<and> c \<notin> set a"
proof (induction s arbitrary: a)
  case Nil
  then show ?case by simp
next
  case (Cons x xs)
  show ?case
  proof (cases "x = c")
    case True
    with Cons.prems show ?thesis using split_on_nonempty[of c xs] by simp
  next
    case False
    with Cons.prems obtain p where p: "split_on c xs = [p]" "a = x # p"
      using split_on_nonempty[of c xs] by (auto split: list.splits)
    with Cons.IH[OF p(1)] False show ?thesis by simp
  qed
qed

lemma split_on_pair:
  "split_on c s = [a, b] \<Longrightarrow> s = a @ c # b \<and> c \<notin> set a \<and> c \<notin> set b"
proof (induction s arbitrary: a)
  case Nil
  then show ?case by simp
next
  case (Cons x xs)
  show ?case
  proof (cases "x = c")
    case True
    with Cons.prems have "a = []" "split_on c xs = [b]" by auto
    with split_on_singleton[of c xs b] True show ?thesis by simp
  next
    case False
    with Cons.prems obtain p where p: "split_on c xs = [p, b]" "a = x # p"
      by (auto split: list.splits)
    with Cons.IH[OF p(1)] False show ?thesis by simp
  qed
qed

lemma length_split_on: "length (split_on c s) = Suc (length (filter (\<lambda>x. x = c) s))"
  by (induction s) (auto split: list.splits simp: split_on_nonempty)

lemma hexdigit_not_colon: "n < 16 \<Longrightarrow> hexdigit n \<noteq> CHR '':''"
proof -
  assume "n < 16"
  then have "''0123456789abcdef'' ! n \<in> set ''0123456789abcdef''"
    by (intro nth_mem) simp
  moreover have "CHR '':'' \<notin> set ''0123456789abcdef''" by simp
  ultimately show ?thesis unfolding hexdigit_def by metis
qed

lemma hex_byte_no_colon: "CHR '':'' \<notin> set (hex_byte b)"
proof -
  have "unat b < 256" using unsigned_less[of b] by simp
  then have "unat b div 16 < 16" by simp
  then have "hexdigit (unat b div 16) \<noteq> CHR '':''" by (rule hexdigit_not_colon)
  moreover have "hexdigit (unat b mod 16) \<noteq> CHR '':''" by (rule hexdigit_not_colon) simp
  ultimately show ?thesis unfolding hex_byte_def by auto
qed

lemma hexlify_no_colon: "CHR '':'' \<notin> set (hexlify bs)"
  by (induction bs) (simp_all add: hexlify_def hex_byte_no_colon)

lemma verify_password_iff:
  "verify_password H password stored \<longleftrightarrow>
     (\<exists>salt dig. stored = salt @ '':'' @ dig \<and> CHR '':'' \<notin> set salt \<and> CHR '':'' \<notin> set dig
        \<and> dig = sha256_hexdigest H (password @ salt))"
proof
  assume "verify_password H password stored"
  then obtain salt dig where sp: "split_on CHR '':'' stored = [salt, dig]"
    and eq: "sha256_hexdigest H (password @ salt) = dig"
    unfolding verify_password_def by (auto split: list.splits)
  from split_on_pair[OF sp] eq
  show "\<exists>salt dig. stored = salt @ '':'' @ dig \<and> CHR '':'' \<notin> set salt \<and> CHR '':'' \<notin> set dig
        \<and> dig = sha256_hexdigest H (password @ salt)"
    by auto
next
  assume "\<exists>salt dig. stored = salt @ '':'' @ dig \<and> CHR '':'' \<notin> set salt \<and> CHR '':'' \<notin> set dig
        \<and> dig = sha256_hexdigest H (password @ salt)"
  then obtain salt dig where h: "stored = salt @ '':'' @ dig" "CHR '':'' \<notin> set salt"
    "CHR '':'' \<notin> set dig" "dig = sha256_hexdigest H (password @ salt)"
    by blast
  then have "split_on CHR '':'' stored = [salt, dig]"
    by (simp add: split_on_append split_on_no_sep)
  with h(4) show "verify_password H password stored"
    by (simp add: verify_password_def)
qed

lemma verify_hash_password: "verify_password H password (hash_password H rnd password)"
  unfolding verify_password_iff hash_password_def Let_def token_hex_def sha256_hexdigest_def
  using hexlify_no_colon by blast

lemma verify_malformed:
  "length (filter (\<lambda>x. x = CHR '':'') stored) \<noteq> 1 \<Longrightarrow> \<not> verify_password H password stored"
  unfolding verify_password_def using length_split_on[of "CHR '':''" stored]
  by (auto split: list.splits)

lemma verify_mismatch:
  "dig \<noteq> sha256_hexdigest H (password @ salt)
     \<Longrightarrow> \<not> verify_password H password (salt @ '':'' @ dig)"
proof
  assume ne: "dig \<noteq> sha256_hexdigest H (password @ salt)"
  assume "verify_password H password (salt @ '':'' @ dig)"
  then obtain s' d' where sp: "split_on CHR '':'' (salt @ '':'' @ dig) = [s', d']"
    and eq: "sha256_hexdigest H (password @ s') = d'"
    unfolding verify_password_def by (auto split: list.splits)
  from sp have "length (split_on CHR '':'' (salt @ '':'' @ dig)) = 2" by simp
  then have "CHR '':'' \<notin> set salt" "CHR '':'' \<notin> set dig"
    by (auto simp: length_split_on filter_empty_conv)
  then have "split_on CHR '':'' (salt @ '':'' @ dig) = [salt, dig]"
    by (simp add: split_on_append split_on_no_sep)
  with sp eq ne show False by simp
qed

section \<open>Lemmas on users and sessions\<close>



lemma select_users_empty_iff:
  "select_users un em rows = [] \<longleftrightarrow> (\<forall>u\<in>set rows. username u \<noteq> un \<and> email u \<noteq> em)"
  by (auto simp: select_users_def filter_empty_conv)

lemma select_users_mem:
  "u \<in> set (select_users un em rows) \<longleftrightarrow> u \<in> set rows \<and> (username u = un \<or> email u = em)"
  by (auto simp: select_users_def)

lemma fetchone_Some_mem: "fetchone xs = Some x \<Longrightarrow> x \<in> set xs"
  by (cases xs) auto

lemma fetchone_all_same: "xs \<noteq> [] \<Longrightarrow> \<forall>x\<in>set xs. x = a \<Longrightarrow> fetchone xs = Some a"
  by (cases xs) auto

lemma select_users_new_row:
  assumes "\<forall>u\<in>set rows. username u \<noteq> un"
      and "username r = un"
  shows "fetchone (select_users un em' (rows @ [r])) = Some r"
  using assms by (simp add: select_users_def filter_empty_conv[THEN iffD2])

lemma bob_hash: "password_hash bob = ''01:0907''"
  by (simp add: bob_def hash_password_def token_hex_def sha256_hexdigest_def hexlify_def
      hex_byte_def hexdigit_def sample_sha_def)

lemma build_update_fst: "fst ` set (build_update pd fs) = {f \<in> set fs. pd f \<noteq> None}"
  by (induction fs) (auto split: option.splits)

lemma build_update_snd: "(f, v) \<in> set (build_update pd fs) \<Longrightarrow> pd f = Some v"
  by (induction fs) (auto split: option.splits)

lemma build_update_nonempty:
  "build_update pd fs \<noteq> [] \<longleftrightarrow> (\<exists>f\<in>set fs. pd f \<noteq> None)"
  by (induction fs) (auto split: option.splits)

lemma build_update_bindable:
  "list_all bindable (map snd (build_update pd fs))
     \<longleftrightarrow> (\<forall>f\<in>set fs. \<forall>v. pd f = Some v \<longrightarrow> bindable v)"
  by (induction fs) (auto split: option.splits)

lemma apply_set_frame:
  "u_id (apply_set as u) = u_id u \<and> username (apply_set as u) = username u
   \<and> email (apply_set as u) = email u \<and> password_hash (apply_set as u) = password_hash u"
  by (induction as u rule: apply_set.induct) auto

lemma apply_set_other: "f \<notin> fst ` set as \<Longrightarrow> profile (apply_set as u) f = profile u f"
  by (induction as u rule: apply_set.induct) auto

lemma apply_set_written:
  "\<forall>(g, w)\<in>set as. pd g = Some w \<Longrightarrow> f \<in> fst ` set as \<Longrightarrow> profile (apply_set as u) f = pd f"
proof (induction as u rule: apply_set.induct)
  case (1 u)
  then show ?case by simp
next
  case (2 g w as u)
  show ?case
  proof (cases "f \<in> fst ` set as")
    case True
    with 2 show ?thesis by auto
  next
    case False
    with 2 show ?thesis by (auto simp: apply_set_other)
  qed
qed

lemma apply_build_update:
  "profile (apply_set (build_update pd fs) u) f
     = (if f \<in> set fs \<and> pd f \<noteq> None then pd f else profile u f)"
proof (cases "f \<in> set fs \<and> pd f \<noteq> None")
  case True
  then have "f \<in> fst ` set (build_update pd fs)"
    by (simp add: build_update_fst)
  moreover have "\<forall>(g, w)\<in>set (build_update pd fs). pd g = Some w"
    using build_update_snd by fastforce
  ultimately show ?thesis using True by (simp add: apply_set_written)
next
  case False
  then have "f \<notin> fst ` set (build_update pd fs)"
    by (simp add: build_update_fst)
  with False show ?thesis by (auto simp: apply_set_other)
qed

section \<open>Lemmas on the date window and the daily totals\<close>

lemma date_of_minus_days: "date_of (now - timedelta_days n) = date_of now - n"
proof -
  have "now - n * 86400000000 = now + (- n) * 86400000000" by simp
  then have "(now - n * 86400000000) div 86400000000 = - n + now div 86400000000"
    by simp
  then show ?thesis by (simp add: date_of_def timedelta_days_def)
qed

lemma days_for_known:
  "days_for ''1 Week'' = 7 \<and> days_for ''2 Weeks'' = 14 \<and> days_for ''1 Month'' = 30
   \<and> days_for ''3 Months'' = 90 \<and> days_for ''6 Months'' = 180 \<and> days_for ''1 Year'' = 365"
  by (simp add: days_for_def days_map_def)

lemma days_for_unknown:
  "date_range \<notin> {''1 Week'', ''2 Weeks'', ''1 Month'', ''3 Months'', ''6 Months'', ''1 Year''}
     \<Longrightarrow> days_for date_range = 30"
  by (simp add: days_for_def days_map_def)

lemma get_nutrition_logs_days:
  "days_for r = days_for r' \<Longrightarrow> get_nutrition_logs u r now d = get_nutrition_logs u r' now d"
  by (simp add: get_nutrition_logs_def)

lemma get_workout_history_days:
  "days_for r = days_for r' \<Longrightarrow> get_workout_history agg u r now d = get_workout_history agg u r' now d"
  by (simp add: get_workout_history_def)

lemma sort_key_hd_min:
  assumes "xs \<noteq> []"
  shows "\<exists>p. take 1 (sort_key f xs) = [p] \<and> p \<in> set xs \<and> (\<forall>q\<in>set xs. f p \<le> f q)"
proof -
  from assms have "sort_key f xs \<noteq> []" by (metis length_0_conv length_sort)
  then obtain p ps where ps: "sort_key f xs = p # ps" by (cases "sort_key f xs") auto
  have "sorted (map f (sort_key f xs))" by (rule sorted_sort_key)
  with ps have "\<forall>q\<in>set (p # ps). f p \<le> f q" by auto
  moreover have "set (p # ps) = set xs" using ps set_sort[of f xs] by simp
  ultimately have "p \<in> set xs \<and> (\<forall>q\<in>set xs. f p \<le> f q)" by auto
  with ps show ?thesis by simp
qed

lemma select_calorie_target_cases:
  "(select_calorie_target user_id d = [] \<and> (\<forall>p\<in>set (diet_plans d). dp_user_id p \<noteq> user_id))
   \<or> (\<exists>p. select_calorie_target user_id d = [dp_calorie_target p] \<and> p \<in> set (diet_plans d)
          \<and> dp_user_id p = user_id
          \<and> (\<forall>q\<in>set (diet_plans d). dp_user_id q = user_id \<longrightarrow> dp_created_at q \<le> dp_created_at p))"
proof (cases "filter (\<lambda>p. dp_user_id p = user_id) (diet_plans d) = []")
  case True
  then show ?thesis by (auto simp: select_calorie_target_def filter_empty_conv)
next
  case False
  from sort_key_hd_min[OF False, of "\<lambda>p. - dp_created_at p"]
  obtain p where p: "take 1 (sort_key (\<lambda>p. - dp_created_at p)
                  (filter (\<lambda>p. dp_user_id p = user_id) (diet_plans d))) = [p]"
     "p \<in> set (filter (\<lambda>p. dp_user_id p = user_id) (diet_plans d))"
     "\<forall>q\<in>set (filter (\<lambda>p. dp_user_id p = user_id) (diet_plans d)). - dp_created_at p \<le> - dp_created_at q"
    by blast
  then have "select_calorie_target user_id d = [dp_calorie_target p]"
    by (simp add: select_calorie_target_def)
  with p(2,3) show ?thesis by auto
qed


lemma filter_eq_distinct: "distinct xs \<Longrightarrow> x \<in> set xs \<Longrightarrow> filter (\<lambda>y. y = x) xs = [x]"
  by (induction xs) (auto simp: filter_empty_conv)

lemma nf_rows_eq:
  "nf_rows (get_nutrition_logs user_id date_range now d)
     = map (day_totals (filter (\<lambda>m. ml_user_id m = user_id
                \<and> date_of now - days_for date_range \<le> date_of (ml_logged_at m)) (meal_logs d)))
         (sort (remdups (map (\<lambda>m. date_of (ml_logged_at m))
            (filter (\<lambda>m. ml_user_id m = user_id
                \<and> date_of now - days_for date_range \<le> date_of (ml_logged_at m)) (meal_logs d)))))"
  by (simp add: get_nutrition_logs_def Let_def date_of_minus_days day_totals_def)

lemma nf_target_eq:
  "nf_target_calories (get_nutrition_logs user_id date_range now d)
     = (let t = (case fetchone (select_calorie_target user_id d) of None \<Rightarrow> Null | Some t \<Rightarrow> t)
        in if nf_rows (get_nutrition_logs user_id date_range now d) \<noteq> [] \<and> t \<noteq> Null
           then Some t else None)"
  by (simp add: get_nutrition_logs_def Let_def)

section \<open>Lemmas on deleting plans\<close>

lemma execute_all_simps:
  "execute_all [] c = c"
  "execute_all (s # ss) c = execute_all ss (s c)"
  by (simp_all add: execute_all_def)

lemma take_five_cases:
  "take n [a, b, c, e, f] \<in> {[], [a], [a, b], [a, b, c], [a, b, c, e], [a, b, c, e, f]}"
proof -
  have "n = 0 \<or> n = 1 \<or> n = 2 \<or> n = 3 \<or> n = 4 \<or> 5 \<le> n" by arith
  then show ?thesis by (elim disjE) (simp_all add: numeral_eq_Suc)
qed

lemma take_three_cases:
  "take n [a, b, c] \<in> {[], [a], [a, b], [a, b, c]}"
proof -
  have "n = 0 \<or> n = 1 \<or> n = 2 \<or> 3 \<le> n" by arith
  then show ?thesis by (elim disjE) (simp_all add: numeral_eq_Suc)
qed

lemma plan_day_ids_update:
  "plan_day_ids p (c\<lparr>exercise_logs := a\<rparr>) = plan_day_ids p c"
  "plan_day_ids p (c\<lparr>workout_logs := b\<rparr>) = plan_day_ids p c"
  "plan_day_ids p (c\<lparr>workout_exercises := x\<rparr>) = plan_day_ids p c"
  by (simp_all add: plan_day_ids_def)

lemma refs_after_exercise_logs:
  "workout_refs_ok d \<Longrightarrow> workout_refs_ok (delete_exercise_logs p d)"
  by (auto simp: workout_refs_ok_def delete_exercise_logs_def list_all_iff)

lemma refs_after_workout_logs:
  assumes "workout_refs_ok d"
  shows "workout_refs_ok (delete_workout_logs p (delete_exercise_logs p d))"
proof -
  have "el_workout_log_id e \<in> wl_id ` {l \<in> set (workout_logs d). wl_day_id l \<notin> set (plan_day_ids p d)}"
    if e: "e \<in> set (exercise_logs d)" "el_workout_log_id e \<notin> set (plan_log_ids p d)" for e
  proof -
    from assms e(1) obtain l where l: "l \<in> set (workout_logs d)" "wl_id l = el_workout_log_id e"
      by (auto simp: workout_refs_ok_def list_all_iff)
    with e(2) have "wl_day_id l \<notin> set (plan_day_ids p d)"
      by (force simp: plan_log_ids_def)
    with l show ?thesis by force
  qed
  with assms show ?thesis
    by (auto simp: workout_refs_ok_def delete_workout_logs_def plan_day_ids_update list_all_iff
        delete_exercise_logs_def)
qed


lemma refs_after_workout_exercises:
  "workout_refs_ok d \<Longrightarrow> workout_refs_ok (delete_workout_exercises p d)"
  by (auto simp: workout_refs_ok_def delete_workout_exercises_def list_all_iff)

lemma day_survives:
  assumes "i \<in> wd_id ` set (workout_days d)" "i \<notin> set (plan_day_ids p d)"
  shows "i \<in> wd_id ` {w \<in> set (workout_days d). wd_plan_id w \<noteq> p}"
proof -
  from assms(1) obtain w where w: "w \<in> set (workout_days d)" "wd_id w = i" by auto
  with assms(2) have "wd_plan_id w \<noteq> p" by (force simp: plan_day_ids_def)
  with w show ?thesis by force
qed

lemma refs_after_workout_days:
  assumes ok: "workout_refs_ok d"
      and logs: "\<forall>l\<in>set (workout_logs d). wl_day_id l \<notin> set (plan_day_ids p d)"
      and links: "\<forall>x\<in>set (workout_exercises d). we_day_id x \<notin> set (plan_day_ids p d)"
  shows "workout_refs_ok (delete_workout_days p d)"
  using assms day_survives[of _ d p]
  by (auto simp: workout_refs_ok_def delete_workout_days_def list_all_iff)

lemma refs_after_workout_plan_row:
  assumes ok: "workout_refs_ok d"
      and days: "\<forall>w\<in>set (workout_days d). wd_plan_id w \<noteq> p"
  shows "workout_refs_ok (delete_workout_plan_row p d)"
proof -
  have "wd_plan_id w \<in> wp_id ` {q \<in> set (workout_plans d). wp_id q \<noteq> p}"
    if w: "w \<in> set (workout_days d)" for w
  proof -
    from ok w obtain q where q: "q \<in> set (workout_plans d)" "wp_id q = wd_plan_id w"
      by (auto simp: workout_refs_ok_def list_all_iff)
    with days w have "wp_id q \<noteq> p" by auto
    with q show ?thesis by force
  qed
  with ok show ?thesis
    by (auto simp: workout_refs_ok_def delete_workout_plan_row_def list_all_iff)
qed

lemma delete_workout_plan_prefixes:
  assumes ok: "workout_refs_ok d"
  shows "workout_refs_ok (execute_all (take n (delete_workout_plan_statements p)) d)"
proof -
  let ?s1 = "delete_exercise_logs p d"
  let ?s2 = "delete_workout_logs p ?s1"
  let ?s3 = "delete_workout_exercises p ?s2"
  let ?s4 = "delete_workout_days p ?s3"
  let ?s5 = "delete_workout_plan_row p ?s4"
  have ids: "plan_day_ids p ?s3 = plan_day_ids p d" "plan_day_ids p ?s2 = plan_day_ids p d"
    "plan_day_ids p ?s1 = plan_day_ids p d"
    by (simp_all add: plan_day_ids_update delete_exercise_logs_def delete_workout_logs_def
        delete_workout_exercises_def)
  have r1: "workout_refs_ok ?s1" using ok by (rule refs_after_exercise_logs)
  have r2: "workout_refs_ok ?s2" using ok by (rule refs_after_workout_logs)
  have r3: "workout_refs_ok ?s3" using r2 by (rule refs_after_workout_exercises)
  have logs: "\<forall>l\<in>set (workout_logs ?s3). wl_day_id l \<notin> set (plan_day_ids p ?s3)"
    unfolding ids(1)
    by (simp add: delete_workout_exercises_def delete_workout_logs_def delete_exercise_logs_def
        plan_day_ids_update)
  have links: "\<forall>x\<in>set (workout_exercises ?s3). we_day_id x \<notin> set (plan_day_ids p ?s3)"
    unfolding ids(1)
    by (simp add: delete_workout_exercises_def delete_workout_logs_def delete_exercise_logs_def
        plan_day_ids_update)
  have r4: "workout_refs_ok ?s4" using r3 logs links by (rule refs_after_workout_days)
  have days: "\<forall>w\<in>set (workout_days ?s4). wd_plan_id w \<noteq> p"
    by (simp add: delete_workout_days_def)
  have r5: "workout_refs_ok ?s5" using r4 days by (rule refs_after_workout_plan_row)
  from take_five_cases[of n "delete_exercise_logs p" "delete_workout_logs p"
      "delete_workout_exercises p" "delete_workout_days p" "delete_workout_plan_row p"]
  show ?thesis unfolding delete_workout_plan_statements_def
    using ok r1 r2 r3 r4 r5 by (auto simp: execute_all_simps)
qed

lemma delete_workout_plan_result:
  "execute_all (delete_workout_plan_statements p) d
     = d\<lparr>exercise_logs :=
           filter (\<lambda>e. el_workout_log_id e \<notin> set (plan_log_ids p d)) (exercise_logs d),
         workout_logs :=
           filter (\<lambda>l. wl_day_id l \<notin> set (plan_day_ids p d)) (workout_logs d),
         workout_exercises :=
           filter (\<lambda>x. we_day_id x \<notin> set (plan_day_ids p d)) (workout_exercises d),
         workout_days := filter (\<lambda>w. wd_plan_id w \<noteq> p) (workout_days d),
         workout_plans := filter (\<lambda>q. wp_id q \<noteq> p) (workout_plans d)\<rparr>"
  by (simp add: delete_workout_plan_statements_def execute_all_simps delete_exercise_logs_def
      delete_workout_logs_def delete_workout_exercises_def delete_workout_days_def
      delete_workout_plan_row_def plan_day_ids_update)

lemma refs_after_meal_plans: "diet_refs_ok d \<Longrightarrow> diet_refs_ok (delete_meal_plans p d)"
  by (auto simp: diet_refs_ok_def delete_meal_plans_def list_all_iff)

lemma refs_after_shopping_lists: "diet_refs_ok d \<Longrightarrow> diet_refs_ok (delete_shopping_lists p d)"
  by (auto simp: diet_refs_ok_def delete_shopping_lists_def list_all_iff)

lemma refs_after_diet_plan_row:
  assumes ok: "diet_refs_ok d"
      and meals: "\<forall>m\<in>set (meal_plans d). mp_diet_plan_id m \<noteq> p"
      and items: "\<forall>s\<in>set (shopping_lists d). sl_diet_plan_id s \<noteq> p"
  shows "diet_refs_ok (delete_diet_plan_row p d)"
proof -
  have "i \<in> dp_id ` {q \<in> set (diet_plans d). dp_id q \<noteq> p}"
    if "i \<in> dp_id ` set (diet_plans d)" "i \<noteq> p" for i
    using that by force
  with assms show ?thesis
    by (auto simp: diet_refs_ok_def delete_diet_plan_row_def list_all_iff)
qed

lemma delete_diet_plan_prefixes:
  assumes ok: "diet_refs_ok d"
  shows "diet_refs_ok (execute_all (take n (delete_diet_plan_statements p)) d)"
proof -
  let ?s1 = "delete_meal_plans p d"
  let ?s2 = "delete_shopping_lists p ?s1"
  let ?s3 = "delete_diet_plan_row p ?s2"
  have r1: "diet_refs_ok ?s1" using ok by (rule refs_after_meal_plans)
  have r2: "diet_refs_ok ?s2" using r1 by (rule refs_after_shopping_lists)
  have meals: "\<forall>m\<in>set (meal_plans ?s2). mp_diet_plan_id m \<noteq> p"
    by (simp add: delete_shopping_lists_def delete_meal_plans_def)
  have items: "\<forall>s\<in>set (shopping_lists ?s2). sl_diet_plan_id s \<noteq> p"
    by (simp add: delete_shopping_lists_def)
  have r3: "diet_refs_ok ?s3" using r2 meals items by (rule refs_after_diet_plan_row)
  from take_three_cases[of n "delete_meal_plans p" "delete_shopping_lists p"
      "delete_diet_plan_row p"]
  show ?thesis unfolding delete_diet_plan_statements_def
    using ok r1 r2 r3 by (auto simp: execute_all_simps)
qed

lemma delete_diet_plan_result:
  "execute_all (delete_diet_plan_statements p) d
     = d\<lparr>meal_plans := filter (\<lambda>m. mp_diet_plan_id m \<noteq> p) (meal_plans d),
         shopping_lists := filter (\<lambda>s. sl_diet_plan_id s \<noteq> p) (shopping_lists d),
         diet_plans := filter (\<lambda>q. dp_id q \<noteq> p) (diet_plans d)\<rparr>"
  by (simp add: delete_diet_plan_statements_def execute_all_simps delete_meal_plans_def
      delete_shopping_lists_def delete_diet_plan_row_def)

section \<open>Lemmas on the workout history\<close>

lemma history_rows_set:
  "set (history_rows user_id start_date d)
     = {(wl, el, wd). wl \<in> set (workout_logs d) \<and> el \<in> set (exercise_logs d)
          \<and> wd \<in> set (workout_days d) \<and> wl_id wl = el_workout_log_id el
          \<and> wl_day_id wl = wd_id wd \<and> wl_user_id wl = user_id
          \<and> start_date \<le> date_of (wl_completed_at wl)}"
  by (auto simp: history_rows_def)

lemma group_hd_key:
  assumes "k \<in> f ` set xs"
  shows "filter (\<lambda>j. f j = k) xs \<noteq> [] \<and> f (hd (filter (\<lambda>j. f j = k) xs)) = k"
proof -
  from assms have ne: "filter (\<lambda>j. f j = k) xs \<noteq> []" by (auto simp: filter_empty_conv)
  then have "hd (filter (\<lambda>j. f j = k) xs) \<in> set (filter (\<lambda>j. f j = k) xs)" by (rule hd_in_set)
  then have "f (hd (filter (\<lambda>j. f j = k) xs)) = k" by simp
  with ne show ?thesis by simp
qed

lemma groups_cover:
  fixes f :: "'a \<Rightarrow> 'k::linorder"
  shows "set (concat (map (\<lambda>k. filter (\<lambda>j. f j = k) xs) (sort (remdups (map f xs))))) = set xs"
  by auto

lemma groups_uniform:
  fixes f :: "'a \<Rightarrow> 'k::linorder"
  assumes "g \<in> set (map (\<lambda>k. filter (\<lambda>j. f j = k) xs) (sort (remdups (map f xs))))"
  shows "g \<noteq> [] \<and> (\<forall>j\<in>set g. f j = f (hd g))"
proof -
  from assms obtain k where k: "k \<in> f ` set xs" "g = filter (\<lambda>j. f j = k) xs" by auto
  from group_hd_key[OF k(1)] k(2) show ?thesis by auto
qed

lemma groups_keys:
  fixes f :: "'a \<Rightarrow> 'k::linorder"
  shows "map (\<lambda>g. f (hd g)) (map (\<lambda>k. filter (\<lambda>j. f j = k) xs) (sort (remdups (map f xs))))
           = sort (remdups (map f xs))"
proof -
  have "map (\<lambda>k. f (hd (filter (\<lambda>j. f j = k) xs))) (sort (remdups (map f xs)))
      = sort (remdups (map f xs))"
  proof (rule map_idI)
    fix k assume "k \<in> set (sort (remdups (map f xs)))"
    then have "k \<in> f ` set xs" by simp
    from group_hd_key[OF this] show "f (hd (filter (\<lambda>j. f j = k) xs)) = k" by simp
  qed
  then show ?thesis by (simp add: comp_def)
qed

lemma get_workout_history_eq:
  "get_workout_history agg user_id date_range now d
     = map (\<lambda>k. agg (filter (\<lambda>j. history_key j = k)
                        (history_rows user_id (date_of now - days_for date_range) d)))
         (sort (remdups (map history_key
            (history_rows user_id (date_of now - days_for date_range) d))))"
  by (simp add: get_workout_history_def Let_def date_of_minus_days)

lemma history_one_month:
  "get_workout_history (map (\<lambda>j. wl_id (fst j))) 1 ''1 Month'' sample_now db_history = [[1, 1], [3]]"
  by (simp add: get_workout_history_def Let_def history_rows_def history_key_def sort_rank_def
      db_history_def db_meals_def empty_db_def wday_def wlog_def elog_def sample_now_def
      days_for_def days_map_def date_of_def timedelta_days_def)

lemma history_three_months:
  "get_workout_history (map (\<lambda>j. wl_id (fst j))) 1 ''3 Months'' sample_now db_history
     = [[2], [1, 1], [3]]"
  by (simp add: get_workout_history_def Let_def history_rows_def history_key_def sort_rank_def
      db_history_def db_meals_def empty_db_def wday_def wlog_def elog_def sample_now_def
      days_for_def days_map_def date_of_def timedelta_days_def)

section \<open>Lemmas on saving plans\<close>

lemma insert_workout_plan_Inr:
  "insert_workout_plan sch u plan c = Inr (pid, c') \<Longrightarrow>
     pid = next_rowid (map wp_id (workout_plans c))
     \<and> c' = c\<lparr>workout_plans := workout_plans c @ [plan_row pid u plan]\<rparr>"
  by (auto simp: insert_workout_plan_def Let_def plan_row_def split: if_splits)

lemma insert_workout_day_Inr:
  "insert_workout_day sch pid dd c = Inr (i, c') \<Longrightarrow>
     i = next_rowid (map wd_id (workout_days c))
     \<and> c' = c\<lparr>workout_days := workout_days c @ [day_row i pid dd]\<rparr>"
  by (auto simp: insert_workout_day_def Let_def day_row_def split: if_splits)

lemma insert_workout_exercise_Inr:
  "insert_workout_exercise sch day_id x e c = Inr c' \<Longrightarrow>
     c' = c\<lparr>workout_exercises := workout_exercises c @ [link_row day_id x e]\<rparr>"
  by (auto simp: insert_workout_exercise_def Let_def split: if_splits)

lemma insert_or_ignore_exercise_Inr:
  "insert_or_ignore_exercise sch e c = Inr c' \<Longrightarrow>
     c' = c
     \<or> (c' = c\<lparr>exercises := exercises c @ [catalog_row (next_rowid (map ex_id (exercises c))) e]\<rparr>
        \<and> \<not> list_ex (\<lambda>x. sql_eq (ex_name x) (dget e ''name'')) (exercises c))"
  by (auto simp: insert_or_ignore_exercise_def Let_def catalog_row_def split: if_splits)

lemma insert_or_ignore_exercise_grows:
  "insert_or_ignore_exercise sch e c = Inr c' \<Longrightarrow>
     \<exists>xs. c' = c\<lparr>exercises := exercises c @ xs\<rparr>"
proof -
  assume "insert_or_ignore_exercise sch e c = Inr c'"
  from insert_or_ignore_exercise_Inr[OF this]
  show ?thesis
  proof
    assume "c' = c"
    then have "c' = c\<lparr>exercises := exercises c @ []\<rparr>" by simp
    then show ?thesis by blast
  next
    assume "c' = c\<lparr>exercises := exercises c @ [catalog_row (next_rowid (map ex_id (exercises c))) e]\<rparr>
        \<and> \<not> list_ex (\<lambda>x. sql_eq (ex_name x) (dget e ''name'')) (exercises c)"
    then show ?thesis by blast
  qed
qed

lemma link_saved_mono:
  "link_saved c day_id l e \<Longrightarrow> set (exercises c) \<subseteq> set (exercises c') \<Longrightarrow> link_saved c' day_id l e"
  by (auto simp: link_saved_def list_ex_iff)

lemma save_exercises_Inr:
  "save_exercises sch day_id es c = Inr c' \<Longrightarrow>
     \<exists>xs ls. c' = c\<lparr>exercises := exercises c @ xs,
                    workout_exercises := workout_exercises c @ ls\<rparr>
        \<and> list_all2 (link_saved c' day_id) ls es"
proof (induction es arbitrary: c)
  case Nil
  then have "c' = c\<lparr>exercises := exercises c @ [], workout_exercises := workout_exercises c @ []\<rparr>"
    by simp
  then show ?case by (metis list_all2_Nil)
next
  case (Cons e es)
  from Cons.prems obtain c1 x c2 where
    s1: "insert_or_ignore_exercise sch e c = Inr c1"
    and s2: "fetchone (select_exercise_ids (dget e ''name'') c1) = Some x"
    and s3: "insert_workout_exercise sch day_id x e c1 = Inr c2"
    and s4: "save_exercises sch day_id es c2 = Inr c'"
    by (auto split: sum.splits option.splits)
  from insert_or_ignore_exercise_grows[OF s1] obtain xs1 where
    c1: "c1 = c\<lparr>exercises := exercises c @ xs1\<rparr>" by blast
  from insert_workout_exercise_Inr[OF s3] have
    c2: "c2 = c1\<lparr>workout_exercises := workout_exercises c1 @ [link_row day_id x e]\<rparr>" .
  from Cons.IH[OF s4] obtain xs2 ls2 where
    c': "c' = c2\<lparr>exercises := exercises c2 @ xs2, workout_exercises := workout_exercises c2 @ ls2\<rparr>"
    and l2: "list_all2 (link_saved c' day_id) ls2 es" by blast
  from s2 have "x \<in> set (select_exercise_ids (dget e ''name'') c1)"
    by (cases "select_exercise_ids (dget e ''name'') c1") auto
  then have "list_ex (\<lambda>y. ex_id y = x \<and> sql_eq (ex_name y) (dget e ''name'')) (exercises c1)"
    by (auto simp: select_exercise_ids_def list_ex_iff)
  then have "link_saved c1 day_id (link_row day_id x e) e"
    by (simp add: link_saved_def link_row_def)
  moreover have "set (exercises c1) \<subseteq> set (exercises c')"
    by (simp add: c' c2)
  ultimately have l1: "link_saved c' day_id (link_row day_id x e) e"
    by (rule link_saved_mono)
  have "c' = c\<lparr>exercises := exercises c @ (xs1 @ xs2),
              workout_exercises := workout_exercises c @ (link_row day_id x e # ls2)\<rparr>"
    by (simp add: c' c2 c1)
  moreover from l1 l2 have "list_all2 (link_saved c' day_id) (link_row day_id x e # ls2) (e # es)"
    by simp
  ultimately show ?case by blast
qed

lemma wd_id_day_row: "wd_id (day_row i pid dd) = i"
  by (simp add: day_row_def Let_def)

lemma day_saved_mono:
  "day_saved c pid s dd \<Longrightarrow> set (exercises c) \<subseteq> set (exercises c') \<Longrightarrow> day_saved c' pid s dd"
  by (auto simp: day_saved_def split: prod.splits
      elim!: list_all2_mono intro: link_saved_mono)

lemma save_days_Inr:
  "save_days sch pid dds c = Inr c' \<Longrightarrow>
     \<exists>saved xs. c' = c\<lparr>workout_days := workout_days c @ map fst saved,
                       exercises := exercises c @ xs,
                       workout_exercises := workout_exercises c @ concat (map snd saved)\<rparr>
        \<and> list_all2 (day_saved c' pid) saved dds"
proof (induction dds arbitrary: c)
  case Nil
  then have "c' = c\<lparr>workout_days := workout_days c @ map fst [],
                       exercises := exercises c @ [],
                       workout_exercises := workout_exercises c @ concat (map snd [])\<rparr>"
    by simp
  moreover have "list_all2 (day_saved c' pid) [] []" by simp
  ultimately show ?case by blast
next
  case (Cons dd dds)
  from Cons.prems obtain i c1 c2 where
    s1: "insert_workout_day sch pid dd c = Inr (i, c1)"
    and s2: "save_exercises sch i (day_exercises dd) c1 = Inr c2"
    and s3: "save_days sch pid dds c2 = Inr c'"
    by (auto split: sum.splits prod.splits)
  from insert_workout_day_Inr[OF s1] have
    c1: "c1 = c\<lparr>workout_days := workout_days c @ [day_row i pid dd]\<rparr>" by simp
  from save_exercises_Inr[OF s2] obtain xs1 ls1 where
    c2: "c2 = c1\<lparr>exercises := exercises c1 @ xs1, workout_exercises := workout_exercises c1 @ ls1\<rparr>"
    and l1: "list_all2 (link_saved c2 i) ls1 (day_exercises dd)" by blast
  from Cons.IH[OF s3] obtain saved xs2 where
    c': "c' = c2\<lparr>workout_days := workout_days c2 @ map fst saved,
                 exercises := exercises c2 @ xs2,
                 workout_exercises := workout_exercises c2 @ concat (map snd saved)\<rparr>"
    and sv: "list_all2 (day_saved c' pid) saved dds" by blast
  have "day_saved c2 pid (day_row i pid dd, ls1) dd"
    using l1 by (simp add: day_saved_def wd_id_day_row)
  moreover have "set (exercises c2) \<subseteq> set (exercises c')" by (simp add: c')
  ultimately have d1: "day_saved c' pid (day_row i pid dd, ls1) dd" by (rule day_saved_mono)
  have "c' = c\<lparr>workout_days := workout_days c @ map fst ((day_row i pid dd, ls1) # saved),
               exercises := exercises c @ (xs1 @ xs2),
               workout_exercises := workout_exercises c
                  @ concat (map snd ((day_row i pid dd, ls1) # saved))\<rparr>"
    by (simp add: c' c2 c1)
  moreover from d1 sv have "list_all2 (day_saved c' pid) ((day_row i pid dd, ls1) # saved) (dd # dds)"
    by simp
  ultimately show ?case by blast
qed


lemma insert_diet_plan_Inr:
  "insert_diet_plan sch now u diet c = Inr (pid, c') \<Longrightarrow>
     pid = next_rowid (map dp_id (diet_plans c))
     \<and> c' = c\<lparr>diet_plans := diet_plans c @ [diet_row pid now u diet]\<rparr>"
  by (auto simp: insert_diet_plan_def Let_def diet_row_def split: if_splits)

lemma save_meals_Inr:
  "save_meals sch pid ms c = Inr c' \<Longrightarrow>
     c' = c\<lparr>meal_plans := meal_plans c @ map (meal_row pid) ms\<rparr>"
proof (induction ms arbitrary: c)
  case Nil
  then show ?case by simp
next
  case (Cons m ms)
  from Cons.prems obtain c1 where
    s1: "insert_meal_plan sch pid m c = Inr c1" and s2: "save_meals sch pid ms c1 = Inr c'"
    by (auto split: sum.splits)
  from s1 have "c1 = c\<lparr>meal_plans := meal_plans c @ [meal_row pid m]\<rparr>"
    by (auto simp: insert_meal_plan_def Let_def split: if_splits)
  with Cons.IH[OF s2] show ?case by simp
qed

lemma save_shopping_list_Inr:
  "save_shopping_list sch u pid items c = Inr c' \<Longrightarrow>
     c' = c\<lparr>shopping_lists := shopping_lists c @ map (shopping_row u pid) items\<rparr>"
proof (induction items arbitrary: c)
  case Nil
  then show ?case by simp
next
  case (Cons i items)
  from Cons.prems obtain c1 where
    s1: "insert_shopping_item sch u pid i c = Inr c1"
    and s2: "save_shopping_list sch u pid items c1 = Inr c'"
    by (auto split: sum.splits)
  from s1 have "c1 = c\<lparr>shopping_lists := shopping_lists c @ [shopping_row u pid i]\<rparr>"
    by (auto simp: insert_shopping_item_def Let_def split: if_splits)
  with Cons.IH[OF s2] show ?case by simp
qed

lemma save_workout_plan_None: "save_workout_plan sch u plan d = (None, d') \<Longrightarrow> d' = d"
  by (auto simp: save_workout_plan_def with_connection_def split: sum.splits prod.splits)

lemma save_workout_plan_Some:
  assumes "save_workout_plan sch u plan d = (Some pid, d')"
  shows "pid = next_rowid (map wp_id (workout_plans d))
     \<and> (\<exists>saved xs.
          d' = d\<lparr>workout_plans := workout_plans d @ [plan_row pid u plan],
                 workout_days := workout_days d @ map fst saved,
                 exercises := exercises d @ xs,
                 workout_exercises := workout_exercises d @ concat (map snd saved)\<rparr>
          \<and> list_all2 (day_saved d' pid) saved (plan_days plan))"
proof -
  from assms obtain c1 where
    s1: "insert_workout_plan sch u plan d = Inr (pid, c1)"
    and s2: "save_days sch pid (plan_days plan) c1 = Inr d'"
    by (auto simp: save_workout_plan_def with_connection_def split: sum.splits prod.splits)
  from insert_workout_plan_Inr[OF s1] have
    pid: "pid = next_rowid (map wp_id (workout_plans d))"
    and c1: "c1 = d\<lparr>workout_plans := workout_plans d @ [plan_row pid u plan]\<rparr>" by simp_all
  from save_days_Inr[OF s2] obtain saved xs where
    d': "d' = c1\<lparr>workout_days := workout_days c1 @ map fst saved,
                 exercises := exercises c1 @ xs,
                 workout_exercises := workout_exercises c1 @ concat (map snd saved)\<rparr>"
    and sv: "list_all2 (day_saved d' pid) saved (plan_days plan)" by blast
  have "d' = d\<lparr>workout_plans := workout_plans d @ [plan_row pid u plan],
                 workout_days := workout_days d @ map fst saved,
                 exercises := exercises d @ xs,
                 workout_exercises := workout_exercises d @ concat (map snd saved)\<rparr>"
    by (simp add: d' c1)
  with pid sv show ?thesis by blast
qed

lemma save_diet_plan_None: "save_diet_plan sch now u diet d = (None, d') \<Longrightarrow> d' = d"
  by (auto simp: save_diet_plan_def with_connection_def split: sum.splits prod.splits)

lemma save_diet_plan_Some:
  assumes "save_diet_plan sch now u diet d = (Some pid, d')"
  shows "pid = next_rowid (map dp_id (diet_plans d))
     \<and> d' = d\<lparr>diet_plans := diet_plans d @ [diet_row pid now u diet],
              meal_plans := meal_plans d @ map (meal_row pid) (diet_meals diet),
              shopping_lists := shopping_lists d
                 @ map (shopping_row u pid) (diet_shopping_list diet)\<rparr>"
proof -
  from assms obtain c1 c2 where
    s1: "insert_diet_plan sch now u diet d = Inr (pid, c1)"
    and s2: "save_meals sch pid (diet_meals diet) c1 = Inr c2"
    and s3: "save_shopping_list sch u pid (diet_shopping_list diet) c2 = Inr d'"
    by (auto simp: save_diet_plan_def with_connection_def split: sum.splits prod.splits)
  from insert_diet_plan_Inr[OF s1] save_meals_Inr[OF s2] save_shopping_list_Inr[OF s3]
  show ?thesis by simp
qed















lemmas sample_save_defs =
  save_workout_plan_def with_connection_def insert_workout_plan_def insert_workout_day_def
  insert_or_ignore_exercise_def insert_workout_exercise_def select_exercise_ids_def
  plan_row_def day_row_def catalog_row_def link_row_def Let_def dget_def dget_or_def
  bindable_def sql_eq_def next_rowid_def open_schema_def empty_db_def
  pushups_plan_def broken_plan_def pushups_entry_def squats_entry_def

lemma save_pushups_plan_fst:
  "fst (save_workout_plan open_schema 1 pushups_plan empty_db) = Some 1"
  by (simp add: sample_save_defs)

lemma save_broken_plan_fst:
  "fst (save_workout_plan open_schema 1 broken_plan db_gym) = None"
  by (simp add: sample_save_defs db_gym_def wplan_def wday_def pushups_row_def wlink_def)

lemmas sample_diet_defs =
  save_diet_plan_def with_connection_def insert_diet_plan_def insert_meal_plan_def
  insert_shopping_item_def diet_row_def meal_row_def shopping_row_def Let_def dget_def
  dget_or_def bindable_def next_rowid_def open_schema_def empty_db_def sample_diet_def
  broken_diet_def

lemma save_sample_diet_fst:
  "fst (save_diet_plan open_schema 50 1 sample_diet empty_db) = Some 1"
  by (simp add: sample_diet_defs)

lemma save_broken_diet_fst:
  "fst (save_diet_plan open_schema 50 1 broken_diet db_food) = None"
  by (simp add: sample_diet_defs db_food_def db_meals_def diet_plan_at_def)




lemma saved_lengths:
  "list_all2 (day_saved c pid) saved dds \<Longrightarrow>
     length saved = length dds
     \<and> length (concat (map snd saved)) = sum_list (map (\<lambda>dd. length (day_exercises dd)) dds)"
  by (induction saved dds rule: list_all2_induct)
     (auto simp: day_saved_def dest: list_all2_lengthD)

section \<open>The claims\<close>

text \<open>
  C6. For every password, verifying it against its own hash record succeeds, whatever salt
  was drawn. Verification is a total function to a truth value: it returns false on every
  record that does not have exactly one colon (the malformed records, where the source's
  unpacking raises and the handler answers), and on every record \<open>salt:digest\<close> whose
  digest is not the digest recomputed from the password and that salt (a tampered digest
  among them). It returns true exactly on the well-formed records whose digest matches.
\<close>

theorem verify_password_hash_roundtrip:
  "verify_password H password (hash_password H rnd password)
   \<and> (\<forall>stored. length (filter (\<lambda>x. x = CHR '':'') stored) \<noteq> 1
         \<longrightarrow> \<not> verify_password H password stored)
   \<and> (\<forall>salt dig. dig \<noteq> sha256_hexdigest H (password @ salt)
         \<longrightarrow> \<not> verify_password H password (salt @ '':'' @ dig))
   \<and> (\<forall>stored. verify_password H password stored \<longleftrightarrow>
         (\<exists>salt dig. stored = salt @ '':'' @ dig \<and> CHR '':'' \<notin> set salt
            \<and> CHR '':'' \<notin> set dig \<and> dig = sha256_hexdigest H (password @ salt)))"
  using verify_hash_password verify_malformed verify_mismatch verify_password_iff
  by blast

theorem verify_password_hash_roundtrip_witness:
  "hash_password (\<lambda>s. [of_nat (length s), 7]) [0, 255] ''secret1'' = ''00ff:0b07''
   \<and> verify_password (\<lambda>s. [of_nat (length s), 7]) ''secret1''
        (hash_password (\<lambda>s. [of_nat (length s), 7]) [0, 255] ''secret1'')
   \<and> \<not> verify_password (\<lambda>s. [of_nat (length s), 7]) ''secret1'' ''00ff0b07''
   \<and> \<not> verify_password (\<lambda>s. [of_nat (length s), 7]) ''secret1'' (''00ff'' @ '':'' @ ''0b08'')"
proof -
  let ?H = "\<lambda>s::string. [of_nat (length s), 7 :: byte]"
  note t = verify_password_hash_roundtrip[of ?H "''secret1''" "[0, 255]"]
  have h: "hash_password ?H [0, 255] ''secret1'' = ''00ff:0b07''"
    by (simp add: hash_password_def token_hex_def sha256_hexdigest_def hexlify_def
        hex_byte_def hexdigit_def)
  have m: "length (filter (\<lambda>x. x = CHR '':'') ''00ff0b07'') \<noteq> 1" by simp
  have d: "''0b08'' \<noteq> sha256_hexdigest ?H (''secret1'' @ ''00ff'')"
    by (simp add: sha256_hexdigest_def hexlify_def hex_byte_def hexdigit_def)
  from t m d h show ?thesis by blast
qed

text \<open>
  C3. When no row of the users table has the given username or the given email, and the
  profile holds values the database can store, \<open>create_user\<close> returns the new row's id and
  appends exactly one row; that row holds the username, the email, the profile values and, as
  its password column, the hash record \<open>salt:digest\<close> of the password, which is the only place
  the password enters the row. Authenticating next with that username and password returns
  that row. When a row with the username or the email exists, \<open>create_user\<close> returns
  \<open>None\<close> (the conflict result) and leaves the database as it was.
\<close>

theorem create_user_then_authenticate:
  "((\<forall>u\<in>set (users d). username u \<noteq> un \<and> email u \<noteq> em)
      \<and> (\<forall>f\<in>set profile_columns.
            bindable (dget (case user_data of None \<Rightarrow> Map.empty | Some m \<Rightarrow> m) f))
    \<longrightarrow> (\<exists>row.
           row = \<lparr>u_id = next_rowid (map u_id (users d)), username = un, email = em,
                  password_hash = hash_password H rnd password,
                  profile = (\<lambda>f. if f \<in> set profile_columns
                                  then Some (dget (case user_data of None \<Rightarrow> Map.empty
                                                   | Some m \<Rightarrow> m) f)
                                  else None)\<rparr>
           \<and> create_user H rnd un em password user_data d
               = (Some (u_id row), d\<lparr>users := users d @ [row]\<rparr>)
           \<and> authenticate_user H un password (d\<lparr>users := users d @ [row]\<rparr>) = Some row))
   \<and> ((\<exists>u\<in>set (users d). username u = un \<or> email u = em)
    \<longrightarrow> create_user H rnd un em password user_data d = (None, d))"
proof (intro conjI impI)
  assume a: "(\<forall>u\<in>set (users d). username u \<noteq> un \<and> email u \<noteq> em)
      \<and> (\<forall>f\<in>set profile_columns.
            bindable (dget (case user_data of None \<Rightarrow> Map.empty | Some m \<Rightarrow> m) f))"
  define ud where "ud = (case user_data of None \<Rightarrow> Map.empty | Some m \<Rightarrow> m)"
  define row where "row = \<lparr>u_id = next_rowid (map u_id (users d)), username = un, email = em,
                  password_hash = hash_password H rnd password,
                  profile = (\<lambda>f. if f \<in> set profile_columns then Some (dget ud f) else None)\<rparr>"
  from a have none: "select_users un em (users d) = []"
    by (simp add: select_users_empty_iff)
  from a have bind: "list_all bindable (map (dget ud) profile_columns)"
    by (simp add: list_all_iff ud_def)
  from a have nodup: "\<not> list_ex (\<lambda>u. username u = un \<or> email u = em) (users d)"
    by (auto simp: list_ex_iff)
  have cr: "create_user H rnd un em password user_data d
               = (Some (u_id row), d\<lparr>users := users d @ [row]\<rparr>)"
    unfolding create_user_def with_connection_def insert_user_def
    using none bind nodup by (simp add: Let_def ud_def[symmetric] row_def)
  from a have "fetchone (select_users un un (users d @ [row])) = Some row"
    by (intro select_users_new_row) (simp_all add: row_def)
  moreover have "verify_password H password (password_hash row)"
    by (simp add: row_def verify_hash_password)
  ultimately have au: "authenticate_user H un password (d\<lparr>users := users d @ [row]\<rparr>) = Some row"
    by (simp add: authenticate_user_def)
  from cr au show "\<exists>row.
           row = \<lparr>u_id = next_rowid (map u_id (users d)), username = un, email = em,
                  password_hash = hash_password H rnd password,
                  profile = (\<lambda>f. if f \<in> set profile_columns
                                  then Some (dget (case user_data of None \<Rightarrow> Map.empty
                                                   | Some m \<Rightarrow> m) f)
                                  else None)\<rparr>
           \<and> create_user H rnd un em password user_data d
               = (Some (u_id row), d\<lparr>users := users d @ [row]\<rparr>)
           \<and> authenticate_user H un password (d\<lparr>users := users d @ [row]\<rparr>) = Some row"
    unfolding row_def ud_def by blast
next
  assume "\<exists>u\<in>set (users d). username u = un \<or> email u = em"
  then have "select_users un em (users d) \<noteq> []"
    by (auto simp: select_users_empty_iff)
  then show "create_user H rnd un em password user_data d = (None, d)"
    by (simp add: create_user_def with_connection_def)
qed

theorem create_user_then_authenticate_witness:
  "fst (create_user sample_sha [0, 255] ''alice'' ''a@x.com'' ''secret1'' None db_bob) = Some 2
   \<and> map_option username
        (authenticate_user sample_sha ''alice'' ''secret1''
           (snd (create_user sample_sha [0, 255] ''alice'' ''a@x.com'' ''secret1'' None db_bob)))
       = Some ''alice''
   \<and> create_user sample_sha [3] ''bob'' ''new@x.com'' ''pw'' None db_bob = (None, db_bob)"
proof -
  have h1: "(\<forall>u\<in>set (users db_bob). username u \<noteq> ''alice'' \<and> email u \<noteq> ''a@x.com'')
      \<and> (\<forall>f\<in>set profile_columns.
            bindable (dget (case None of None \<Rightarrow> Map.empty | Some m \<Rightarrow> m) f))"
    by (simp add: db_bob_def empty_db_def bob_def dget_def bindable_def)
  have h2: "\<exists>u\<in>set (users db_bob). username u = ''bob'' \<or> email u = ''new@x.com''"
    by (simp add: db_bob_def empty_db_def bob_def)
  have n: "next_rowid (map u_id (users db_bob)) = 2"
    by (simp add: db_bob_def empty_db_def bob_def next_rowid_def)
  note e = create_user_then_authenticate[of db_bob "''alice''" "''a@x.com''" None sample_sha
      "[0, 255]" "''secret1''", THEN conjunct1, THEN mp, OF h1]
  then obtain row where rr: "row = \<lparr>u_id = next_rowid (map u_id (users db_bob)),
        username = ''alice'', email = ''a@x.com'',
        password_hash = hash_password sample_sha [0, 255] ''secret1'',
        profile = (\<lambda>f. if f \<in> set profile_columns
                        then Some (dget (case None of None \<Rightarrow> Map.empty | Some m \<Rightarrow> m) f)
                        else None)\<rparr>"
    and r3: "create_user sample_sha [0, 255] ''alice'' ''a@x.com'' ''secret1'' None db_bob
       = (Some (u_id row), db_bob\<lparr>users := users db_bob @ [row]\<rparr>)"
    and r4: "authenticate_user sample_sha ''alice'' ''secret1''
         (db_bob\<lparr>users := users db_bob @ [row]\<rparr>) = Some row"
    by blast
  from rr have r: "u_id row = next_rowid (map u_id (users db_bob))" "username row = ''alice''"
    by simp_all
  from create_user_then_authenticate[of db_bob "''bob''" "''new@x.com''" None sample_sha
      "[3]" "''pw''"] h2
  have c: "create_user sample_sha [3] ''bob'' ''new@x.com'' ''pw'' None db_bob = (None, db_bob)"
    by blast
  from r r3 r4 n c show ?thesis by simp
qed

text \<open>
  C7. \<open>authenticate_user\<close> matches the identifier against the username and the email
  columns: a returned user has the identifier as username or as email and a hash record the
  password verifies against, and a user who is the only match, by either column, with a
  verifying password is returned. Every failure is the one result \<open>None\<close>: it is returned
  whenever the password verifies against no row that matches the identifier, which covers an
  identifier that matches no row and a known user with a wrong password alike.
\<close>

theorem authenticate_user_uniform_failure:
  "((\<forall>u\<in>set (users d). (username u = ident \<or> email u = ident)
        \<longrightarrow> \<not> verify_password H password (password_hash u))
      \<longrightarrow> authenticate_user H ident password d = None)
   \<and> (\<forall>u. authenticate_user H ident password d = Some u
        \<longrightarrow> u \<in> set (users d) \<and> (username u = ident \<or> email u = ident)
            \<and> verify_password H password (password_hash u))
   \<and> (\<forall>u. u \<in> set (users d) \<and> (username u = ident \<or> email u = ident)
          \<and> verify_password H password (password_hash u)
          \<and> (\<forall>v\<in>set (users d). v \<noteq> u \<longrightarrow> username v \<noteq> ident \<and> email v \<noteq> ident)
        \<longrightarrow> authenticate_user H ident password d = Some u)"
proof -
  have none: "authenticate_user H ident password d = None"
    if a: "\<forall>u\<in>set (users d). (username u = ident \<or> email u = ident)
        \<longrightarrow> \<not> verify_password H password (password_hash u)"
  proof (cases "fetchone (select_users ident ident (users d))")
    case None
    then show ?thesis by (simp add: authenticate_user_def)
  next
    case (Some u)
    then have "u \<in> set (select_users ident ident (users d))" by (rule fetchone_Some_mem)
    with a have "\<not> verify_password H password (password_hash u)"
      by (auto simp: select_users_mem)
    with Some show ?thesis by (simp add: authenticate_user_def)
  qed
  have sound: "u \<in> set (users d) \<and> (username u = ident \<or> email u = ident)
            \<and> verify_password H password (password_hash u)"
    if "authenticate_user H ident password d = Some u" for u
  proof -
    from that have f: "fetchone (select_users ident ident (users d)) = Some u"
      and v: "verify_password H password (password_hash u)"
      by (auto simp: authenticate_user_def split: option.splits if_splits)
    from fetchone_Some_mem[OF f] v show ?thesis by (simp add: select_users_mem)
  qed
  have complete: "authenticate_user H ident password d = Some u"
    if a: "u \<in> set (users d) \<and> (username u = ident \<or> email u = ident)
          \<and> verify_password H password (password_hash u)
          \<and> (\<forall>v\<in>set (users d). v \<noteq> u \<longrightarrow> username v \<noteq> ident \<and> email v \<noteq> ident)" for u
  proof -
    from a have "u \<in> set (select_users ident ident (users d))"
      by (simp add: select_users_mem)
    then have ne: "select_users ident ident (users d) \<noteq> []" by auto
    from a have "\<forall>x\<in>set (select_users ident ident (users d)). x = u"
      by (auto simp: select_users_mem)
    with ne have "fetchone (select_users ident ident (users d)) = Some u"
      by (rule fetchone_all_same)
    with a show ?thesis by (simp add: authenticate_user_def)
  qed
  from none sound complete show ?thesis by blast
qed

theorem authenticate_user_uniform_failure_witness:
  "authenticate_user sample_sha ''carol'' ''hunter2'' db_bob = None
   \<and> authenticate_user sample_sha ''bob'' ''wrong'' db_bob = None
   \<and> authenticate_user sample_sha ''bob'' ''hunter2'' db_bob = Some bob
   \<and> authenticate_user sample_sha ''alice'' ''hunter2'' db_bob = Some bob"
proof -
  have v: "verify_password sample_sha ''hunter2'' (password_hash bob)"
    by (simp add: bob_hash verify_password_def sha256_hexdigest_def hexlify_def
      hex_byte_def hexdigit_def sample_sha_def)
  have w: "\<not> verify_password sample_sha ''wrong'' (password_hash bob)"
    by (simp add: bob_hash verify_password_def sha256_hexdigest_def hexlify_def
      hex_byte_def hexdigit_def sample_sha_def)
  have u: "users db_bob = [bob]" by (simp add: db_bob_def empty_db_def)
  have nb: "username bob = ''bob''" "email bob = ''alice''" by (simp_all add: bob_def)
  have h1: "\<forall>u\<in>set (users db_bob). (username u = ''carol'' \<or> email u = ''carol'')
        \<longrightarrow> \<not> verify_password sample_sha ''hunter2'' (password_hash u)"
    by (simp add: u nb)
  have h2: "\<forall>u\<in>set (users db_bob). (username u = ''bob'' \<or> email u = ''bob'')
        \<longrightarrow> \<not> verify_password sample_sha ''wrong'' (password_hash u)"
    using w by (simp add: u)
  have h3: "bob \<in> set (users db_bob) \<and> (username bob = ''bob'' \<or> email bob = ''bob'')
          \<and> verify_password sample_sha ''hunter2'' (password_hash bob)
          \<and> (\<forall>v\<in>set (users db_bob). v \<noteq> bob \<longrightarrow> username v \<noteq> ''bob'' \<and> email v \<noteq> ''bob'')"
    using v by (simp add: u nb)
  have h4: "bob \<in> set (users db_bob) \<and> (username bob = ''alice'' \<or> email bob = ''alice'')
          \<and> verify_password sample_sha ''hunter2'' (password_hash bob)
          \<and> (\<forall>v\<in>set (users db_bob). v \<noteq> bob \<longrightarrow> username v \<noteq> ''alice'' \<and> email v \<noteq> ''alice'')"
    using v by (simp add: u nb)
  from authenticate_user_uniform_failure[of db_bob "''carol''" sample_sha "''hunter2''"] h1
  have a1: "authenticate_user sample_sha ''carol'' ''hunter2'' db_bob = None" by blast
  from authenticate_user_uniform_failure[of db_bob "''bob''" sample_sha "''wrong''"] h2
  have a2: "authenticate_user sample_sha ''bob'' ''wrong'' db_bob = None" by blast
  from authenticate_user_uniform_failure[of db_bob "''bob''" sample_sha "''hunter2''"] h3
  have a3: "authenticate_user sample_sha ''bob'' ''hunter2'' db_bob = Some bob" by blast
  from authenticate_user_uniform_failure[of db_bob "''alice''" sample_sha "''hunter2''"] h4
  have a4: "authenticate_user sample_sha ''alice'' ''hunter2'' db_bob = Some bob" by blast
  from a1 a2 a3 a4 show ?thesis by blast
qed

text \<open>
  C4. When \<open>create_session\<close> returns a token for the id of an existing user (the token drawn
  being one the store does not hold yet), validating that token at once, and at any time
  before the expiry \<open>now + ttl\<close>, returns a user with that id; the default ttl is 24 hours.
  From the expiry on, validating the token returns \<open>None\<close>. Validating a token the store does
  not hold returns \<open>None\<close> as well: validation is a total function, and an expired and an
  unknown token give the same result.
\<close>

theorem create_session_then_validate:
  assumes cr: "create_session sch tok now user_id duration_hours d = (Some t, d')"
      and fresh: "\<forall>s\<in>set (user_sessions d). session_token s \<noteq> tok"
      and known: "\<exists>u\<in>set (users d). u_id u = user_id"
  shows "t = tok
     \<and> d' = d\<lparr>user_sessions := user_sessions d @
                 [\<lparr>s_user_id = user_id, session_token = tok,
                   expires_at = now + timedelta_hours duration_hours\<rparr>]\<rparr>
     \<and> (0 < duration_hours \<longrightarrow>
          (\<exists>u. validate_session t now d' = Some u \<and> u \<in> set (users d) \<and> u_id u = user_id))
     \<and> (\<forall>now'. now' < now + timedelta_hours duration_hours \<longrightarrow>
          (\<exists>u. validate_session t now' d' = Some u \<and> u \<in> set (users d) \<and> u_id u = user_id))
     \<and> (\<forall>now'. now + timedelta_hours duration_hours \<le> now' \<longrightarrow>
          validate_session t now' d' = None)
     \<and> (\<forall>t' now'. (\<forall>s\<in>set (user_sessions d'). session_token s \<noteq> t') \<longrightarrow>
          validate_session t' now' d' = None)"
proof -
  let ?s = "\<lparr>s_user_id = user_id, session_token = tok,
             expires_at = now + timedelta_hours duration_hours\<rparr>"
  from cr have t: "t = tok" and d': "d' = d\<lparr>user_sessions := user_sessions d @ [?s]\<rparr>"
    by (auto simp: create_session_def with_connection_def insert_session_def Let_def
        split: if_splits)
  from fresh have old: "filter (\<lambda>s. session_token s = tok \<and> P s) (user_sessions d) = []" for P
    by (auto simp: filter_empty_conv)
  from known obtain u0 where u0: "u0 \<in> set (users d)" "u_id u0 = user_id" by blast
  then have ne: "filter (\<lambda>u. u_id u = user_id) (users d) \<noteq> []"
    by (auto simp: filter_empty_conv)
  have live: "\<exists>u. validate_session t now' d' = Some u \<and> u \<in> set (users d) \<and> u_id u = user_id"
    if "now' < now + timedelta_hours duration_hours" for now'
  proof -
    from that have "validate_session t now' d' = fetchone (filter (\<lambda>u. u_id u = user_id) (users d))"
      by (simp add: validate_session_def t d' old)
    moreover from ne obtain u where "fetchone (filter (\<lambda>u. u_id u = user_id) (users d)) = Some u"
      by (cases "filter (\<lambda>u. u_id u = user_id) (users d)") auto
    moreover from this have "u \<in> set (filter (\<lambda>u. u_id u = user_id) (users d))"
      by (rule fetchone_Some_mem)
    ultimately show ?thesis by auto
  qed
  have dead: "validate_session t now' d' = None"
    if "now + timedelta_hours duration_hours \<le> now'" for now'
    using that by (simp add: validate_session_def t d' old)
  have unknown: "validate_session t' now' d' = None"
    if "\<forall>s\<in>set (user_sessions d'). session_token s \<noteq> t'" for t' now'
  proof -
    from that have "filter (\<lambda>s. session_token s = t' \<and> now' < expires_at s) (user_sessions d') = []"
      by (auto simp: filter_empty_conv)
    then show ?thesis by (simp add: validate_session_def)
  qed
  have "0 < duration_hours \<Longrightarrow> now < now + timedelta_hours duration_hours"
    by (simp add: timedelta_hours_def)
  with live have imm: "0 < duration_hours \<longrightarrow>
          (\<exists>u. validate_session t now d' = Some u \<and> u \<in> set (users d) \<and> u_id u = user_id)"
    by blast
  from t d' imm live dead unknown show ?thesis by blast
qed

theorem create_session_then_validate_witness:
  "fst (create_session open_schema ''tok-1'' 1000 1 default_duration_hours db_bob) = Some ''tok-1''
   \<and> validate_session ''tok-1'' 1000
        (snd (create_session open_schema ''tok-1'' 1000 1 default_duration_hours db_bob)) = Some bob
   \<and> validate_session ''tok-1'' (1000 + 86400000000)
        (snd (create_session open_schema ''tok-1'' 1000 1 default_duration_hours db_bob)) = None
   \<and> validate_session ''tok-2'' 1000
        (snd (create_session open_schema ''tok-1'' 1000 1 default_duration_hours db_bob)) = None"
proof -
  define d1 where "d1 = snd (create_session open_schema ''tok-1'' 1000 1 default_duration_hours db_bob)"
  have cr: "create_session open_schema ''tok-1'' 1000 1 default_duration_hours db_bob
      = (Some ''tok-1'', d1)"
    by (simp add: d1_def create_session_def with_connection_def insert_session_def
        open_schema_def Let_def)
  have fresh: "\<forall>s\<in>set (user_sessions db_bob). session_token s \<noteq> ''tok-1''"
    by (simp add: db_bob_def empty_db_def)
  have known: "\<exists>u\<in>set (users db_bob). u_id u = 1"
    by (simp add: db_bob_def empty_db_def bob_def)
  note t = create_session_then_validate[OF cr fresh known]
  note t_state = t[THEN conjunct2, THEN conjunct1]
  note t_now = t[THEN conjunct2, THEN conjunct2, THEN conjunct1]
  note t_dead = t[THEN conjunct2, THEN conjunct2, THEN conjunct2, THEN conjunct2, THEN conjunct1]
  note t_unknown = t[THEN conjunct2, THEN conjunct2, THEN conjunct2, THEN conjunct2,
      THEN conjunct2]
  have pos: "0 < default_duration_hours" by (simp add: default_duration_hours_def)
  have ttl: "1000 + timedelta_hours default_duration_hours \<le> 1000 + 86400000000"
    by (simp add: default_duration_hours_def timedelta_hours_def)
  from t_now[rule_format, OF pos]
  obtain u where u: "validate_session ''tok-1'' 1000 d1 = Some u" "u \<in> set (users db_bob)"
    by (elim exE conjE)
  from u(2) have "u = bob" by (simp add: db_bob_def empty_db_def)
  with u(1) have a: "validate_session ''tok-1'' 1000 d1 = Some bob" by simp
  have b: "validate_session ''tok-1'' (1000 + 86400000000) d1 = None"
    by (rule t_dead[rule_format, OF ttl])
  have "user_sessions d1 = [\<lparr>s_user_id = 1, session_token = ''tok-1'',
                   expires_at = 1000 + timedelta_hours default_duration_hours\<rparr>]"
    by (subst t_state) (simp add: db_bob_def empty_db_def)
  then have "\<forall>s\<in>set (user_sessions d1). session_token s \<noteq> ''tok-2''" by simp
  with t_unknown have c: "validate_session ''tok-2'' 1000 d1 = None"
    by blast
  have f: "fst (create_session open_schema ''tok-1'' 1000 1 default_duration_hours db_bob)
      = Some ''tok-1''"
    unfolding cr by simp
  from f a b c show ?thesis unfolding d1_def by (intro conjI)
qed

text \<open>
  C8. \<open>update_user_profile\<close> changes nothing but the users table, keeps the number and order
  of its rows, and in every row keeps the id, the username, the email and the password hash.
  A profile column keeps its prior value when the input map lacks it, when it is not one of
  the ten profile columns, or when the row belongs to another user; on success a profile
  column present in the map holds the map's value in the rows of the given user. The
  operation succeeds exactly when the map has one of the ten columns and all their values can
  be bound. In particular an update of \<open>weight_kg\<close> alone leaves \<open>fitness_goals\<close> as it was.
\<close>

theorem update_user_profile_partial:
  assumes up: "update_user_profile user_id profile_data d = (ok, d')"
  shows "d' = d\<lparr>users := users d'\<rparr>
     \<and> length (users d') = length (users d)
     \<and> (\<forall>i < length (users d).
          u_id (users d' ! i) = u_id (users d ! i)
          \<and> username (users d' ! i) = username (users d ! i)
          \<and> email (users d' ! i) = email (users d ! i)
          \<and> password_hash (users d' ! i) = password_hash (users d ! i)
          \<and> (\<forall>f. profile_data f = None \<or> f \<notin> set profile_columns \<or> u_id (users d ! i) \<noteq> user_id
                 \<longrightarrow> profile (users d' ! i) f = profile (users d ! i) f)
          \<and> (\<forall>f. ok \<and> u_id (users d ! i) = user_id \<and> f \<in> set profile_columns
                    \<and> profile_data f \<noteq> None
                 \<longrightarrow> profile (users d' ! i) f = profile_data f))
     \<and> (ok \<longleftrightarrow> (\<exists>f\<in>set profile_columns. profile_data f \<noteq> None)
              \<and> (\<forall>f\<in>set profile_columns. \<forall>v. profile_data f = Some v \<longrightarrow> bindable v))"
proof (cases "build_update profile_data profile_columns \<noteq> []
               \<and> list_all bindable (map snd (build_update profile_data profile_columns))")
  case True
  let ?ups = "build_update profile_data profile_columns"
  let ?g = "\<lambda>u. if u_id u = user_id then apply_set ?ups u else u"
  from True up have ok: "ok" and d': "d' = d\<lparr>users := map ?g (users d)\<rparr>"
    by (auto simp: update_user_profile_def with_connection_def Let_def)
  have row: "u_id (?g u) = u_id u \<and> username (?g u) = username u \<and> email (?g u) = email u
       \<and> password_hash (?g u) = password_hash u
       \<and> (\<forall>f. profile_data f = None \<or> f \<notin> set profile_columns \<or> u_id u \<noteq> user_id
                 \<longrightarrow> profile (?g u) f = profile u f)
       \<and> (\<forall>f. u_id u = user_id \<and> f \<in> set profile_columns \<and> profile_data f \<noteq> None
                 \<longrightarrow> profile (?g u) f = profile_data f)" for u
    by (auto simp: apply_set_frame apply_build_update)
  have "ok \<longleftrightarrow> (\<exists>f\<in>set profile_columns. profile_data f \<noteq> None)
              \<and> (\<forall>f\<in>set profile_columns. \<forall>v. profile_data f = Some v \<longrightarrow> bindable v)"
    using True ok unfolding build_update_nonempty build_update_bindable by blast
  moreover have "d' = d\<lparr>users := users d'\<rparr>" "length (users d') = length (users d)"
    by (simp_all add: d')
  moreover have "\<forall>i < length (users d).
          u_id (users d' ! i) = u_id (users d ! i)
          \<and> username (users d' ! i) = username (users d ! i)
          \<and> email (users d' ! i) = email (users d ! i)
          \<and> password_hash (users d' ! i) = password_hash (users d ! i)
          \<and> (\<forall>f. profile_data f = None \<or> f \<notin> set profile_columns \<or> u_id (users d ! i) \<noteq> user_id
                 \<longrightarrow> profile (users d' ! i) f = profile (users d ! i) f)
          \<and> (\<forall>f. ok \<and> u_id (users d ! i) = user_id \<and> f \<in> set profile_columns
                    \<and> profile_data f \<noteq> None
                 \<longrightarrow> profile (users d' ! i) f = profile_data f)"
    using row by (simp add: d')
  ultimately show ?thesis by blast
next
  case False
  from False up have ok: "\<not> ok" and d': "d' = d"
    by (auto simp: update_user_profile_def with_connection_def Let_def split: if_splits)
  have iff: "ok \<longleftrightarrow> (\<exists>f\<in>set profile_columns. profile_data f \<noteq> None)
              \<and> (\<forall>f\<in>set profile_columns. \<forall>v. profile_data f = Some v \<longrightarrow> bindable v)"
    using False ok unfolding build_update_nonempty build_update_bindable by blast
  have same: "d = d\<lparr>users := users d\<rparr>" by simp
  from ok iff same show ?thesis unfolding d' by blast
qed

theorem update_user_profile_partial_witness:
  "fst (update_user_profile 1 [''weight_kg'' \<mapsto> Integer 80] db_carol)
   \<and> profile (users (snd (update_user_profile 1 [''weight_kg'' \<mapsto> Integer 80] db_carol)) ! 0)
        ''weight_kg'' = Some (Integer 80)
   \<and> profile (users (snd (update_user_profile 1 [''weight_kg'' \<mapsto> Integer 80] db_carol)) ! 0)
        ''fitness_goals'' = Some (Text ''lose weight'')
   \<and> username (users (snd (update_user_profile 1 [''weight_kg'' \<mapsto> Integer 80] db_carol)) ! 0)
        = ''carol''"
proof -
  let ?pd = "[''weight_kg'' \<mapsto> Integer 80]"
  have p: "update_user_profile 1 ?pd db_carol
      = (fst (update_user_profile 1 ?pd db_carol), snd (update_user_profile 1 ?pd db_carol))"
    by simp
  note t = update_user_profile_partial[OF p]
  have u: "users db_carol = [carol]" by (simp add: db_carol_def empty_db_def)
  have ok: "(\<exists>f\<in>set profile_columns. ?pd f \<noteq> None)
      \<and> (\<forall>f\<in>set profile_columns. \<forall>v. ?pd f = Some v \<longrightarrow> bindable v)"
    by (simp add: profile_columns_def bindable_def)
  with t have a: "fst (update_user_profile 1 ?pd db_carol)" by blast
  have i: "0 < length (users db_carol)" by (simp add: u)
  have w: "u_id (users db_carol ! 0) = 1 \<and> ''weight_kg'' \<in> set profile_columns
      \<and> ?pd ''weight_kg'' \<noteq> None"
    by (simp add: u carol_def profile_columns_def)
  have g: "?pd ''fitness_goals'' = None" by simp
  from t i a w have b: "profile (users (snd (update_user_profile 1 ?pd db_carol)) ! 0) ''weight_kg''
      = ?pd ''weight_kg''" by blast
  from t i g have c: "profile (users (snd (update_user_profile 1 ?pd db_carol)) ! 0) ''fitness_goals''
      = profile (users db_carol ! 0) ''fitness_goals''" by blast
  from t i have e: "username (users (snd (update_user_profile 1 ?pd db_carol)) ! 0)
      = username (users db_carol ! 0)" by blast
  from a b c e show ?thesis by (simp add: u carol_def)
qed

text \<open>
  C9. \<open>get_nutrition_logs\<close> maps the six labels to 7, 14, 30, 90, 180 and 365 days and
  selects the user's meal logs whose calendar day is not earlier than today minus that many
  days. Its rows are in ascending order of day, one row per day that has a selected meal log,
  and each row carries the sums of calories, protein, carbs and fat of the selected logs of
  its day. The target column, when attached, is the calorie target of a diet plan of the user
  that no other plan of the user was created after, and it is attached whenever there is a
  row and the user's single most recent plan has a target. Two selected logs of 500 and 600
  calories that are the logs of one day give exactly one row for that day, with calories 1100.
\<close>

theorem get_nutrition_logs_daily_totals:
  fixes user_id :: nat and date_range :: string and now :: datetime and d :: db
  defines "fr \<equiv> get_nutrition_logs user_id date_range now d"
      and "sel \<equiv> filter (\<lambda>m. ml_user_id m = user_id
                \<and> date_of now - days_for date_range \<le> date_of (ml_logged_at m)) (meal_logs d)"
  shows "days_for ''1 Week'' = 7 \<and> days_for ''2 Weeks'' = 14 \<and> days_for ''1 Month'' = 30
     \<and> days_for ''3 Months'' = 90 \<and> days_for ''6 Months'' = 180 \<and> days_for ''1 Year'' = 365
     \<and> sorted (map nr_date (nf_rows fr)) \<and> distinct (map nr_date (nf_rows fr))
     \<and> set (map nr_date (nf_rows fr)) = (\<lambda>m. date_of (ml_logged_at m)) ` set sel
     \<and> (\<forall>r\<in>set (nf_rows fr).
          nr_calories r = sum_list (map ml_calories_consumed
                            (filter (\<lambda>m. date_of (ml_logged_at m) = nr_date r) sel))
          \<and> nr_protein r = sum_list (map ml_protein_g
                            (filter (\<lambda>m. date_of (ml_logged_at m) = nr_date r) sel))
          \<and> nr_carbs r = sum_list (map ml_carbs_g
                            (filter (\<lambda>m. date_of (ml_logged_at m) = nr_date r) sel))
          \<and> nr_fats r = sum_list (map ml_fat_g
                            (filter (\<lambda>m. date_of (ml_logged_at m) = nr_date r) sel)))
     \<and> (\<forall>t. nf_target_calories fr = Some t \<longrightarrow>
          nf_rows fr \<noteq> [] \<and> t \<noteq> Null
          \<and> (\<exists>p\<in>set (diet_plans d). dp_user_id p = user_id \<and> dp_calorie_target p = t
                \<and> (\<forall>q\<in>set (diet_plans d). dp_user_id q = user_id
                      \<longrightarrow> dp_created_at q \<le> dp_created_at p)))
     \<and> (\<forall>p\<in>set (diet_plans d).
          dp_user_id p = user_id
          \<and> (\<forall>q\<in>set (diet_plans d). dp_user_id q = user_id \<and> q \<noteq> p
                 \<longrightarrow> dp_created_at q < dp_created_at p)
          \<and> dp_calorie_target p \<noteq> Null \<and> nf_rows fr \<noteq> []
          \<longrightarrow> nf_target_calories fr = Some (dp_calorie_target p))
     \<and> (\<forall>dt a b. filter (\<lambda>m. date_of (ml_logged_at m) = dt) sel = [a, b]
            \<and> ml_calories_consumed a = 500 \<and> ml_calories_consumed b = 600
          \<longrightarrow> (\<exists>r. filter (\<lambda>r. nr_date r = dt) (nf_rows fr) = [r] \<and> nr_calories r = 1100))"
proof -
  let ?dates = "sort (remdups (map (\<lambda>m. date_of (ml_logged_at m)) sel))"
  have rows: "nf_rows fr = map (day_totals sel) ?dates"
    unfolding fr_def sel_def by (rule nf_rows_eq)
  have dates: "map nr_date (nf_rows fr) = ?dates"
    by (simp add: rows day_totals_def Let_def comp_def)
  have c2: "sorted (map nr_date (nf_rows fr))" "distinct (map nr_date (nf_rows fr))"
    "set (map nr_date (nf_rows fr)) = (\<lambda>m. date_of (ml_logged_at m)) ` set sel"
    unfolding dates by simp_all
  have c4: "\<forall>r\<in>set (nf_rows fr).
          nr_calories r = sum_list (map ml_calories_consumed
                            (filter (\<lambda>m. date_of (ml_logged_at m) = nr_date r) sel))
          \<and> nr_protein r = sum_list (map ml_protein_g
                            (filter (\<lambda>m. date_of (ml_logged_at m) = nr_date r) sel))
          \<and> nr_carbs r = sum_list (map ml_carbs_g
                            (filter (\<lambda>m. date_of (ml_logged_at m) = nr_date r) sel))
          \<and> nr_fats r = sum_list (map ml_fat_g
                            (filter (\<lambda>m. date_of (ml_logged_at m) = nr_date r) sel))"
    by (auto simp: rows day_totals_def Let_def)
  note tc = select_calorie_target_cases[of user_id d]
  have tg: "nf_target_calories fr
     = (let t = (case fetchone (select_calorie_target user_id d) of None \<Rightarrow> Null | Some t \<Rightarrow> t)
        in if nf_rows fr \<noteq> [] \<and> t \<noteq> Null then Some t else None)"
    unfolding fr_def by (rule nf_target_eq)
  have c5: "nf_rows fr \<noteq> [] \<and> t \<noteq> Null
          \<and> (\<exists>p\<in>set (diet_plans d). dp_user_id p = user_id \<and> dp_calorie_target p = t
                \<and> (\<forall>q\<in>set (diet_plans d). dp_user_id q = user_id
                      \<longrightarrow> dp_created_at q \<le> dp_created_at p))"
    if "nf_target_calories fr = Some t" for t
    using that tc unfolding tg Let_def by (auto split: if_splits)
  have c6: "nf_target_calories fr = Some (dp_calorie_target p)"
    if a: "p \<in> set (diet_plans d)" "dp_user_id p = user_id"
       "\<forall>q\<in>set (diet_plans d). dp_user_id q = user_id \<and> q \<noteq> p
                 \<longrightarrow> dp_created_at q < dp_created_at p"
       "dp_calorie_target p \<noteq> Null" "nf_rows fr \<noteq> []" for p
  proof -
    from tc a(1,2) obtain p' where p': "select_calorie_target user_id d = [dp_calorie_target p']"
       "p' \<in> set (diet_plans d)" "dp_user_id p' = user_id"
       "\<forall>q\<in>set (diet_plans d). dp_user_id q = user_id \<longrightarrow> dp_created_at q \<le> dp_created_at p'"
      by blast
    have "p' = p"
    proof (rule ccontr)
      assume "p' \<noteq> p"
      with a(3) p'(2,3) have "dp_created_at p' < dp_created_at p" by blast
      moreover from p'(4) a(1,2) have "dp_created_at p \<le> dp_created_at p'" by blast
      ultimately show False by simp
    qed
    with p'(1) a(4,5) show ?thesis unfolding tg by simp
  qed
  have c7: "\<exists>r. filter (\<lambda>r. nr_date r = dt) (nf_rows fr) = [r] \<and> nr_calories r = 1100"
    if a: "filter (\<lambda>m. date_of (ml_logged_at m) = dt) sel = [a, b]"
       "ml_calories_consumed a = 500" "ml_calories_consumed b = 600" for dt a b
  proof -
    from a(1) have "a \<in> set (filter (\<lambda>m. date_of (ml_logged_at m) = dt) sel)" by simp
    then have "dt \<in> set ?dates" by auto
    moreover have "distinct ?dates" by simp
    ultimately have f: "filter (\<lambda>y. y = dt) ?dates = [dt]" by (rule filter_eq_distinct[rotated])
    have "filter (\<lambda>r. nr_date r = dt) (nf_rows fr)
        = map (day_totals sel) (filter (\<lambda>y. y = dt) ?dates)"
      by (simp add: rows filter_map comp_def day_totals_def Let_def)
    with f have "filter (\<lambda>r. nr_date r = dt) (nf_rows fr) = [day_totals sel dt]" by simp
    moreover have "nr_calories (day_totals sel dt) = 1100"
      using a by (simp add: day_totals_def)
    ultimately show ?thesis by blast
  qed
  have k: "days_for ''1 Week'' = 7" "days_for ''2 Weeks'' = 14" "days_for ''1 Month'' = 30"
    "days_for ''3 Months'' = 90" "days_for ''6 Months'' = 180" "days_for ''1 Year'' = 365"
    using days_for_known by simp_all
  have C5: "\<forall>t. nf_target_calories fr = Some t \<longrightarrow>
          nf_rows fr \<noteq> [] \<and> t \<noteq> Null
          \<and> (\<exists>p\<in>set (diet_plans d). dp_user_id p = user_id \<and> dp_calorie_target p = t
                \<and> (\<forall>q\<in>set (diet_plans d). dp_user_id q = user_id
                      \<longrightarrow> dp_created_at q \<le> dp_created_at p))"
    using c5 by (intro allI impI)
  have C6: "\<forall>p\<in>set (diet_plans d).
          dp_user_id p = user_id
          \<and> (\<forall>q\<in>set (diet_plans d). dp_user_id q = user_id \<and> q \<noteq> p
                 \<longrightarrow> dp_created_at q < dp_created_at p)
          \<and> dp_calorie_target p \<noteq> Null \<and> nf_rows fr \<noteq> []
          \<longrightarrow> nf_target_calories fr = Some (dp_calorie_target p)"
    using c6 by (intro ballI impI) (elim conjE)
  have C7: "\<forall>dt a b. filter (\<lambda>m. date_of (ml_logged_at m) = dt) sel = [a, b]
            \<and> ml_calories_consumed a = 500 \<and> ml_calories_consumed b = 600
          \<longrightarrow> (\<exists>r. filter (\<lambda>r. nr_date r = dt) (nf_rows fr) = [r] \<and> nr_calories r = 1100)"
    using c7 by (intro allI impI) (elim conjE)
  show ?thesis by (intro conjI) (rule k c2 c4 C5 C6 C7)+
qed

theorem get_nutrition_logs_daily_totals_witness:
  "(\<exists>r. filter (\<lambda>r. nr_date r = 100) (nf_rows (get_nutrition_logs 1 ''1 Week'' sample_now db_meals)) = [r]
        \<and> nr_calories r = 1100)
   \<and> set (map nr_date (nf_rows (get_nutrition_logs 1 ''1 Week'' sample_now db_meals))) = {100}
   \<and> nf_target_calories (get_nutrition_logs 1 ''1 Week'' sample_now db_meals) = Some (Integer 2200)"
proof -
  let ?fr = "get_nutrition_logs 1 ''1 Week'' sample_now db_meals"
  let ?sel = "filter (\<lambda>m. ml_user_id m = 1
                \<and> date_of sample_now - days_for ''1 Week'' \<le> date_of (ml_logged_at m))
                (meal_logs db_meals)"
  note t = get_nutrition_logs_daily_totals[of 1 "''1 Week''" sample_now db_meals]
  have w: "date_of sample_now - days_for ''1 Week'' = 96"
    by (simp add: date_of_def sample_now_def days_for_def days_map_def)
  have sel: "?sel = [meal_at 1 500 8643600000000, meal_at 1 600 8712000000000]"
    unfolding w by (simp add: db_meals_def empty_db_def meal_at_def date_of_def)
  have day: "filter (\<lambda>m. date_of (ml_logged_at m) = 100) ?sel
      = [meal_at 1 500 8643600000000, meal_at 1 600 8712000000000]
      \<and> ml_calories_consumed (meal_at 1 500 8643600000000) = 500
      \<and> ml_calories_consumed (meal_at 1 600 8712000000000) = 600"
    unfolding sel by (simp add: meal_at_def date_of_def)
  note t7 = t[THEN conjunct2, THEN conjunct2, THEN conjunct2, THEN conjunct2, THEN conjunct2,
      THEN conjunct2, THEN conjunct2, THEN conjunct2, THEN conjunct2, THEN conjunct2,
      THEN conjunct2, THEN conjunct2, rule_format, OF day]
  note t3 = t[THEN conjunct2, THEN conjunct2, THEN conjunct2, THEN conjunct2, THEN conjunct2,
      THEN conjunct2, THEN conjunct2, THEN conjunct2, THEN conjunct1]
  note t6 = t[THEN conjunct2, THEN conjunct2, THEN conjunct2, THEN conjunct2, THEN conjunct2,
      THEN conjunct2, THEN conjunct2, THEN conjunct2, THEN conjunct2, THEN conjunct2,
      THEN conjunct2, THEN conjunct1]
  have dates: "set (map nr_date (nf_rows ?fr)) = {100}"
    unfolding t3 sel by (simp add: meal_at_def date_of_def)
  then have ne: "nf_rows ?fr \<noteq> []" by auto
  have p: "diet_plan_at 2 1 (Integer 2200) 20 \<in> set (diet_plans db_meals)"
    by (simp add: db_meals_def empty_db_def)
  have h: "dp_user_id (diet_plan_at 2 1 (Integer 2200) 20) = 1
          \<and> (\<forall>q\<in>set (diet_plans db_meals). dp_user_id q = 1 \<and> q \<noteq> diet_plan_at 2 1 (Integer 2200) 20
                 \<longrightarrow> dp_created_at q < dp_created_at (diet_plan_at 2 1 (Integer 2200) 20))
          \<and> dp_calorie_target (diet_plan_at 2 1 (Integer 2200) 20) \<noteq> Null \<and> nf_rows ?fr \<noteq> []"
    using ne by (simp add: db_meals_def empty_db_def diet_plan_at_def)
  from t6[rule_format, OF p h]
  have tg: "nf_target_calories ?fr = Some (Integer 2200)"
    by (simp add: diet_plan_at_def)
  from t7 dates tg show ?thesis by (intro conjI)
qed

text \<open>
  C5. \<open>delete_workout_plan\<close> succeeds and changes five tables only: it removes the exercise
  logs of the workout logs of the plan's days, the workout logs and the exercise links of the
  plan's days, the plan's days and the plan's row, and keeps every other row of these tables
  and every other table, the exercises catalog among them. It deletes children before
  parents: after each statement, in the source's order, every remaining owned row still has
  its parent if that was so before the call. \<open>delete_diet_plan\<close> likewise removes the plan's
  meal rows, then its shopping-list rows, then the plan's row, and nothing else.
\<close>

theorem delete_plans_cascade:
  "delete_workout_plan plan_id d
     = (True,
        d\<lparr>exercise_logs :=
            filter (\<lambda>e. el_workout_log_id e \<notin> set (plan_log_ids plan_id d)) (exercise_logs d),
          workout_logs :=
            filter (\<lambda>l. wl_day_id l \<notin> set (plan_day_ids plan_id d)) (workout_logs d),
          workout_exercises :=
            filter (\<lambda>x. we_day_id x \<notin> set (plan_day_ids plan_id d)) (workout_exercises d),
          workout_days := filter (\<lambda>w. wd_plan_id w \<noteq> plan_id) (workout_days d),
          workout_plans := filter (\<lambda>q. wp_id q \<noteq> plan_id) (workout_plans d)\<rparr>)
   \<and> exercises (snd (delete_workout_plan plan_id d)) = exercises d
   \<and> (\<forall>n. workout_refs_ok d \<longrightarrow>
          workout_refs_ok (execute_all (take n (delete_workout_plan_statements plan_id)) d))
   \<and> delete_diet_plan plan_id d
     = (True,
        d\<lparr>meal_plans := filter (\<lambda>m. mp_diet_plan_id m \<noteq> plan_id) (meal_plans d),
          shopping_lists := filter (\<lambda>s. sl_diet_plan_id s \<noteq> plan_id) (shopping_lists d),
          diet_plans := filter (\<lambda>q. dp_id q \<noteq> plan_id) (diet_plans d)\<rparr>)
   \<and> exercises (snd (delete_diet_plan plan_id d)) = exercises d
   \<and> (\<forall>n. diet_refs_ok d \<longrightarrow>
          diet_refs_ok (execute_all (take n (delete_diet_plan_statements plan_id)) d))"
proof -
  have w: "delete_workout_plan plan_id d
      = (True, execute_all (delete_workout_plan_statements plan_id) d)"
    by (simp add: delete_workout_plan_def with_connection_def)
  have f: "delete_diet_plan plan_id d
      = (True, execute_all (delete_diet_plan_statements plan_id) d)"
    by (simp add: delete_diet_plan_def with_connection_def)
  show ?thesis
    unfolding w f delete_workout_plan_result delete_diet_plan_result
    using delete_workout_plan_prefixes delete_diet_plan_prefixes
    by simp
qed

theorem delete_plans_cascade_witness:
  "fst (delete_workout_plan 1 db_gym)
   \<and> workout_plans (snd (delete_workout_plan 1 db_gym)) = [wplan 2 1]
   \<and> workout_days (snd (delete_workout_plan 1 db_gym)) = [wday 3 2]
   \<and> workout_exercises (snd (delete_workout_plan 1 db_gym)) = [wlink 3 1]
   \<and> workout_logs (snd (delete_workout_plan 1 db_gym)) = [wlog 2 1 3]
   \<and> exercise_logs (snd (delete_workout_plan 1 db_gym)) = [elog 2 1]
   \<and> exercises (snd (delete_workout_plan 1 db_gym)) = [pushups_row]
   \<and> workout_refs_ok (execute_all (take 3 (delete_workout_plan_statements 1)) db_gym)
   \<and> fst (delete_diet_plan 1 db_food)
   \<and> meal_plans (snd (delete_diet_plan 1 db_food)) = [meal_row 2 Map.empty]
   \<and> shopping_lists (snd (delete_diet_plan 1 db_food)) = [shopping_row 1 2 Map.empty]
   \<and> map dp_id (diet_plans (snd (delete_diet_plan 1 db_food))) = [2]
   \<and> diet_refs_ok (execute_all (take 2 (delete_diet_plan_statements 1)) db_food)"
proof -
  note t = delete_plans_cascade[of 1 db_gym]
  note u = delete_plans_cascade[of 1 db_food]
  note tw = t[THEN conjunct1]
  note tr = t[THEN conjunct2, THEN conjunct2, THEN conjunct1, rule_format]
  note ud = u[THEN conjunct2, THEN conjunct2, THEN conjunct2, THEN conjunct1]
  note ur = u[THEN conjunct2, THEN conjunct2, THEN conjunct2, THEN conjunct2, THEN conjunct2,
      rule_format]
  have days: "plan_day_ids 1 db_gym = [1, 2]"
    by (simp add: plan_day_ids_def db_gym_def empty_db_def wday_def)
  have logs: "plan_log_ids 1 db_gym = [1]"
    unfolding plan_log_ids_def days by (simp add: db_gym_def empty_db_def wlog_def)
  have gym: "workout_refs_ok db_gym"
    by (simp add: workout_refs_ok_def db_gym_def empty_db_def wplan_def wday_def wlink_def
        wlog_def elog_def)
  have food: "diet_refs_ok db_food"
    by (simp add: diet_refs_ok_def db_food_def db_meals_def empty_db_def diet_plan_at_def
        meal_row_def shopping_row_def)
  have a: "fst (delete_workout_plan 1 db_gym)
      \<and> workout_plans (snd (delete_workout_plan 1 db_gym)) = [wplan 2 1]
      \<and> workout_days (snd (delete_workout_plan 1 db_gym)) = [wday 3 2]
      \<and> workout_exercises (snd (delete_workout_plan 1 db_gym)) = [wlink 3 1]
      \<and> workout_logs (snd (delete_workout_plan 1 db_gym)) = [wlog 2 1 3]
      \<and> exercise_logs (snd (delete_workout_plan 1 db_gym)) = [elog 2 1]
      \<and> exercises (snd (delete_workout_plan 1 db_gym)) = [pushups_row]"
    unfolding tw days logs
    by (simp add: db_gym_def empty_db_def wplan_def wday_def wlink_def wlog_def elog_def)
  have b: "fst (delete_diet_plan 1 db_food)
      \<and> meal_plans (snd (delete_diet_plan 1 db_food)) = [meal_row 2 Map.empty]
      \<and> shopping_lists (snd (delete_diet_plan 1 db_food)) = [shopping_row 1 2 Map.empty]
      \<and> map dp_id (diet_plans (snd (delete_diet_plan 1 db_food))) = [2]"
    unfolding ud
    by (simp add: db_food_def db_meals_def empty_db_def diet_plan_at_def meal_row_def
        shopping_row_def)
  from a b tr[OF gym, of 3] ur[OF food, of 2] show ?thesis by (elim conjE, intro conjI)
qed

text \<open>
  C10. For a date range that is none of the six labels the day count is 30, the input is not
  rejected, and both queries use the 30-day window, as they do for the label \<open>1 Month\<close>.
  \<open>get_nutrition_logs\<close> returns one row per day, in ascending order, over the user's meal
  logs whose day is not earlier than today minus 30 days, each row with the sums of its day.
  \<open>get_workout_history\<close> returns one output row per group; the groups together hold
  exactly the joined rows of the user's workout logs whose day is not earlier than today minus
  30 days, each group is non-empty and has one key (day, plan name, day number), and the
  groups come in ascending order of their keys, no two with the same key.
\<close>

theorem unknown_date_range_is_one_month:
  fixes user_id :: nat and date_range :: string and now :: datetime and d :: db
    and agg :: "history_join list \<Rightarrow> 'r"
  defines "sel \<equiv> filter (\<lambda>m. ml_user_id m = user_id
                \<and> date_of now - 30 \<le> date_of (ml_logged_at m)) (meal_logs d)"
      and "groups \<equiv> get_workout_history (\<lambda>g. g) user_id date_range now d"
  assumes unknown:
    "date_range \<notin> {''1 Week'', ''2 Weeks'', ''1 Month'', ''3 Months'', ''6 Months'', ''1 Year''}"
  shows "days_for date_range = 30
     \<and> get_nutrition_logs user_id date_range now d = get_nutrition_logs user_id ''1 Month'' now d
     \<and> get_workout_history agg user_id date_range now d
         = get_workout_history agg user_id ''1 Month'' now d
     \<and> map nr_date (nf_rows (get_nutrition_logs user_id date_range now d))
         = sort (remdups (map (\<lambda>m. date_of (ml_logged_at m)) sel))
     \<and> (\<forall>r\<in>set (nf_rows (get_nutrition_logs user_id date_range now d)).
          nr_calories r = sum_list (map ml_calories_consumed
                            (filter (\<lambda>m. date_of (ml_logged_at m) = nr_date r) sel))
          \<and> nr_protein r = sum_list (map ml_protein_g
                            (filter (\<lambda>m. date_of (ml_logged_at m) = nr_date r) sel))
          \<and> nr_carbs r = sum_list (map ml_carbs_g
                            (filter (\<lambda>m. date_of (ml_logged_at m) = nr_date r) sel))
          \<and> nr_fats r = sum_list (map ml_fat_g
                            (filter (\<lambda>m. date_of (ml_logged_at m) = nr_date r) sel)))
     \<and> get_workout_history agg user_id date_range now d = map agg groups
     \<and> set (concat groups)
         = {(wl, el, wd). wl \<in> set (workout_logs d) \<and> el \<in> set (exercise_logs d)
              \<and> wd \<in> set (workout_days d) \<and> wl_id wl = el_workout_log_id el
              \<and> wl_day_id wl = wd_id wd \<and> wl_user_id wl = user_id
              \<and> date_of now - 30 \<le> date_of (wl_completed_at wl)}
     \<and> (\<forall>g\<in>set groups. g \<noteq> [] \<and> (\<forall>j\<in>set g. history_key j = history_key (hd g)))
     \<and> sorted (map (\<lambda>g. history_key (hd g)) groups)
     \<and> distinct (map (\<lambda>g. history_key (hd g)) groups)"
proof -
  let ?rows = "history_rows user_id (date_of now - 30) d"
  let ?dates = "sort (remdups (map (\<lambda>m. date_of (ml_logged_at m)) sel))"
  from unknown have a: "days_for date_range = 30" by (rule days_for_unknown)
  have b: "days_for ''1 Month'' = 30" using days_for_known by simp
  from a b have ab: "days_for date_range = days_for ''1 Month''" by simp
  have n1: "get_nutrition_logs user_id date_range now d
      = get_nutrition_logs user_id ''1 Month'' now d"
    using ab by (rule get_nutrition_logs_days)
  have h1: "get_workout_history agg user_id date_range now d
      = get_workout_history agg user_id ''1 Month'' now d"
    using ab by (rule get_workout_history_days)
  have rows: "nf_rows (get_nutrition_logs user_id date_range now d) = map (day_totals sel) ?dates"
    unfolding sel_def using nf_rows_eq[of user_id date_range now d] by (simp add: a)
  have n2: "map nr_date (nf_rows (get_nutrition_logs user_id date_range now d)) = ?dates"
    by (simp add: rows day_totals_def Let_def comp_def)
  have n3: "\<forall>r\<in>set (nf_rows (get_nutrition_logs user_id date_range now d)).
          nr_calories r = sum_list (map ml_calories_consumed
                            (filter (\<lambda>m. date_of (ml_logged_at m) = nr_date r) sel))
          \<and> nr_protein r = sum_list (map ml_protein_g
                            (filter (\<lambda>m. date_of (ml_logged_at m) = nr_date r) sel))
          \<and> nr_carbs r = sum_list (map ml_carbs_g
                            (filter (\<lambda>m. date_of (ml_logged_at m) = nr_date r) sel))
          \<and> nr_fats r = sum_list (map ml_fat_g
                            (filter (\<lambda>m. date_of (ml_logged_at m) = nr_date r) sel))"
    by (auto simp: rows day_totals_def Let_def)
  have g: "groups = map (\<lambda>k. filter (\<lambda>j. history_key j = k) ?rows)
                      (sort (remdups (map history_key ?rows)))"
    unfolding groups_def by (simp add: get_workout_history_eq a)
  have h2: "get_workout_history agg user_id date_range now d = map agg groups"
    unfolding g by (simp add: get_workout_history_eq a comp_def)
  have h3: "set (concat groups)
         = {(wl, el, wd). wl \<in> set (workout_logs d) \<and> el \<in> set (exercise_logs d)
              \<and> wd \<in> set (workout_days d) \<and> wl_id wl = el_workout_log_id el
              \<and> wl_day_id wl = wd_id wd \<and> wl_user_id wl = user_id
              \<and> date_of now - 30 \<le> date_of (wl_completed_at wl)}"
    unfolding g groups_cover by (rule history_rows_set)
  have h4: "\<forall>g\<in>set groups. g \<noteq> [] \<and> (\<forall>j\<in>set g. history_key j = history_key (hd g))"
    unfolding g using groups_uniform[of _ history_key ?rows] by blast
  have keys: "map (\<lambda>g. history_key (hd g)) groups = sort (remdups (map history_key ?rows))"
    unfolding g by (rule groups_keys)
  have h5: "sorted (map (\<lambda>g. history_key (hd g)) groups)"
    "distinct (map (\<lambda>g. history_key (hd g)) groups)"
    unfolding keys by simp_all
  show ?thesis by (intro conjI) (rule a n1 h1 n2 n3 h2 h3 h4 h5)+
qed

theorem unknown_date_range_is_one_month_witness:
  "days_for ''All Time'' = 30
   \<and> get_workout_history (map (\<lambda>j. wl_id (fst j))) 1 ''All Time'' sample_now db_history
       = [[1, 1], [3]]
   \<and> get_workout_history (map (\<lambda>j. wl_id (fst j))) 1 ''3 Months'' sample_now db_history
       = [[2], [1, 1], [3]]
   \<and> map nr_date (nf_rows (get_nutrition_logs 1 ''All Time'' sample_now db_history)) = [100]
   \<and> map nr_calories (nf_rows (get_nutrition_logs 1 ''All Time'' sample_now db_history)) = [1100]"
proof -
  have h: "''All Time'' \<notin> {''1 Week'', ''2 Weeks'', ''1 Month'', ''3 Months'', ''6 Months'', ''1 Year''}"
    by simp
  note t = unknown_date_range_is_one_month[of "''All Time''" 1 sample_now db_history
      "map (\<lambda>j. wl_id (fst j))", OF h]
  note t1 = t[THEN conjunct1]
  note t3 = t[THEN conjunct2, THEN conjunct2, THEN conjunct1]
  note t4 = t[THEN conjunct2, THEN conjunct2, THEN conjunct2, THEN conjunct1]
  note t5 = t[THEN conjunct2, THEN conjunct2, THEN conjunct2, THEN conjunct2, THEN conjunct1]
  have sel: "filter (\<lambda>m. ml_user_id m = 1 \<and> date_of sample_now - 30 \<le> date_of (ml_logged_at m))
               (meal_logs db_history)
      = [meal_at 1 500 8643600000000, meal_at 1 600 8712000000000]"
    by (simp add: db_history_def db_meals_def empty_db_def meal_at_def date_of_def sample_now_def)
  have a: "get_workout_history (map (\<lambda>j. wl_id (fst j))) 1 ''All Time'' sample_now db_history
       = [[1, 1], [3]]"
    unfolding t3 by (rule history_one_month)
  have dates: "map nr_date (nf_rows (get_nutrition_logs 1 ''All Time'' sample_now db_history)) = [100]"
    unfolding t4 sel by (simp add: meal_at_def date_of_def)
  then obtain r where r: "nf_rows (get_nutrition_logs 1 ''All Time'' sample_now db_history) = [r]"
    "nr_date r = 100" by (auto simp: map_eq_Cons_conv)
  from t5 r have "nr_calories r = sum_list (map ml_calories_consumed
       (filter (\<lambda>m. date_of (ml_logged_at m) = 100)
          (filter (\<lambda>m. ml_user_id m = 1 \<and> date_of sample_now - 30 \<le> date_of (ml_logged_at m))
               (meal_logs db_history))))"
    by simp
  then have "nr_calories r = 1100"
    unfolding sel by (simp add: meal_at_def date_of_def)
  with r have cal: "map nr_calories (nf_rows (get_nutrition_logs 1 ''All Time'' sample_now db_history))
      = [1100]" by simp
  show ?thesis by (intro conjI) (rule t1 a history_three_months dates cal)+
qed



text \<open>
  C2. \<open>save_workout_plan\<close> either returns \<open>None\<close> and leaves the database exactly as it was,
  or returns the new plan's id with all of its rows in place: the plan row, one day row per
  day of the payload in order, for each exercise of each day a link row that points at a
  catalog row of the exercise's name, catalog rows appended at most, and no other table
  changed. \<open>save_diet_plan\<close> likewise either returns \<open>None\<close> and leaves the database as it
  was, or returns the new id with the plan row, one meal row per meal and one shopping-list
  row per item appended and nothing else changed.
\<close>

theorem save_plans_all_or_nothing:
  "(case save_workout_plan sch user_id plan d of
      (None, d') \<Rightarrow> d' = d
    | (Some pid, d') \<Rightarrow>
        pid = next_rowid (map wp_id (workout_plans d))
        \<and> (\<exists>saved xs.
             d' = d\<lparr>workout_plans := workout_plans d @ [plan_row pid user_id plan],
                    workout_days := workout_days d @ map fst saved,
                    exercises := exercises d @ xs,
                    workout_exercises := workout_exercises d @ concat (map snd saved)\<rparr>
             \<and> list_all2 (day_saved d' pid) saved (plan_days plan)))
   \<and> (case save_diet_plan sch now user_id diet d of
      (None, d') \<Rightarrow> d' = d
    | (Some pid, d') \<Rightarrow>
        pid = next_rowid (map dp_id (diet_plans d))
        \<and> d' = d\<lparr>diet_plans := diet_plans d @ [diet_row pid now user_id diet],
                 meal_plans := meal_plans d @ map (meal_row pid) (diet_meals diet),
                 shopping_lists := shopping_lists d
                    @ map (shopping_row user_id pid) (diet_shopping_list diet)\<rparr>)"
proof
  obtain r d' where w: "save_workout_plan sch user_id plan d = (r, d')" by (cases "save_workout_plan sch user_id plan d")
  show "case save_workout_plan sch user_id plan d of
      (None, d') \<Rightarrow> d' = d
    | (Some pid, d') \<Rightarrow>
        pid = next_rowid (map wp_id (workout_plans d))
        \<and> (\<exists>saved xs.
             d' = d\<lparr>workout_plans := workout_plans d @ [plan_row pid user_id plan],
                    workout_days := workout_days d @ map fst saved,
                    exercises := exercises d @ xs,
                    workout_exercises := workout_exercises d @ concat (map snd saved)\<rparr>
             \<and> list_all2 (day_saved d' pid) saved (plan_days plan))"
  proof (cases r)
    case None
    with w have e: "save_workout_plan sch user_id plan d = (None, d')" by simp
    show ?thesis unfolding e prod.case option.case by (rule save_workout_plan_None[OF e])
  next
    case (Some pid)
    with w have e: "save_workout_plan sch user_id plan d = (Some pid, d')" by simp
    show ?thesis unfolding e prod.case option.case by (rule save_workout_plan_Some[OF e])
  qed
next
  obtain r d' where w: "save_diet_plan sch now user_id diet d = (r, d')" by (cases "save_diet_plan sch now user_id diet d")
  show "case save_diet_plan sch now user_id diet d of
      (None, d') \<Rightarrow> d' = d
    | (Some pid, d') \<Rightarrow>
        pid = next_rowid (map dp_id (diet_plans d))
        \<and> d' = d\<lparr>diet_plans := diet_plans d @ [diet_row pid now user_id diet],
                 meal_plans := meal_plans d @ map (meal_row pid) (diet_meals diet),
                 shopping_lists := shopping_lists d
                    @ map (shopping_row user_id pid) (diet_shopping_list diet)\<rparr>"
  proof (cases r)
    case None
    with w have e: "save_diet_plan sch now user_id diet d = (None, d')" by simp
    show ?thesis unfolding e prod.case option.case by (rule save_diet_plan_None[OF e])
  next
    case (Some pid)
    with w have e: "save_diet_plan sch now user_id diet d = (Some pid, d')" by simp
    show ?thesis unfolding e prod.case option.case by (rule save_diet_plan_Some[OF e])
  qed
qed

theorem save_plans_all_or_nothing_witness:
  "fst (save_workout_plan open_schema 1 pushups_plan empty_db) = Some 1
   \<and> workout_plans (snd (save_workout_plan open_schema 1 pushups_plan empty_db))
       = [plan_row 1 1 pushups_plan]
   \<and> length (workout_days (snd (save_workout_plan open_schema 1 pushups_plan empty_db))) = 2
   \<and> length (workout_exercises (snd (save_workout_plan open_schema 1 pushups_plan empty_db))) = 3
   \<and> save_workout_plan open_schema 1 broken_plan db_gym = (None, db_gym)
   \<and> fst (save_diet_plan open_schema 50 1 sample_diet empty_db) = Some 1
   \<and> meal_plans (snd (save_diet_plan open_schema 50 1 sample_diet empty_db))
       = map (meal_row 1) (diet_meals sample_diet)
   \<and> shopping_lists (snd (save_diet_plan open_schema 50 1 sample_diet empty_db))
       = map (shopping_row 1 1) (diet_shopping_list sample_diet)
   \<and> save_diet_plan open_schema 50 1 broken_diet db_food = (None, db_food)"
proof -
  define d1 where "d1 = snd (save_workout_plan open_schema 1 pushups_plan empty_db)"
  define d2 where "d2 = snd (save_diet_plan open_schema 50 1 sample_diet empty_db)"
  have w: "save_workout_plan open_schema 1 pushups_plan empty_db = (Some 1, d1)"
    unfolding d1_def using save_pushups_plan_fst by (metis prod.collapse)
  have f: "save_diet_plan open_schema 50 1 sample_diet empty_db = (Some 1, d2)"
    unfolding d2_def using save_sample_diet_fst by (metis prod.collapse)
  have wb: "save_workout_plan open_schema 1 broken_plan db_gym
      = (None, snd (save_workout_plan open_schema 1 broken_plan db_gym))"
    using save_broken_plan_fst by (metis prod.collapse)
  have fb: "save_diet_plan open_schema 50 1 broken_diet db_food
      = (None, snd (save_diet_plan open_schema 50 1 broken_diet db_food))"
    using save_broken_diet_fst by (metis prod.collapse)
  note t = save_plans_all_or_nothing[where sch = open_schema and user_id = 1
      and plan = pushups_plan and d = empty_db and now = 50 and diet = sample_diet]
  note tw = t[THEN conjunct1, unfolded w prod.case option.case]
  note tf = t[THEN conjunct2, unfolded f prod.case option.case]
  note u = save_plans_all_or_nothing[where sch = open_schema and user_id = 1
      and plan = broken_plan and d = db_gym and now = 50 and diet = broken_diet]
  note v = save_plans_all_or_nothing[where sch = open_schema and user_id = 1
      and plan = broken_plan and d = db_food and now = 50 and diet = broken_diet]
  from u[THEN conjunct1] wb
  have b1: "save_workout_plan open_schema 1 broken_plan db_gym = (None, db_gym)"
    by (metis (mono_tags, lifting) option.simps(4) prod.simps(2))
  from v[THEN conjunct2] fb
  have b2: "save_diet_plan open_schema 50 1 broken_diet db_food = (None, db_food)"
    by (metis (mono_tags, lifting) option.simps(4) prod.simps(2))
  from tw obtain saved xs where
    d1: "d1 = empty_db\<lparr>workout_plans := workout_plans empty_db @ [plan_row 1 1 pushups_plan],
                 workout_days := workout_days empty_db @ map fst saved,
                 exercises := exercises empty_db @ xs,
                 workout_exercises := workout_exercises empty_db @ concat (map snd saved)\<rparr>"
    and sv: "list_all2 (day_saved d1 1) saved (plan_days pushups_plan)" by blast
  note sl = saved_lengths[OF sv]
  have a1: "workout_plans d1 = [plan_row 1 1 pushups_plan]"
    by (subst d1) (simp add: empty_db_def)
  have a2: "length (workout_days d1) = 2"
    by (subst d1) (simp add: empty_db_def sl pushups_plan_def)
  have a3: "length (workout_exercises d1) = 3"
    by (subst d1) (simp add: empty_db_def sl pushups_plan_def)
  from tf have c1: "meal_plans d2 = map (meal_row 1) (diet_meals sample_diet)"
    and c2: "shopping_lists d2 = map (shopping_row 1 1) (diet_shopping_list sample_diet)"
    by (simp_all add: empty_db_def)
  show ?thesis
    unfolding d1_def[symmetric] d2_def[symmetric]
    by (intro conjI) (rule save_pushups_plan_fst a1 a2 a3 b1 save_sample_diet_fst c1 c2 b2)+
qed

end
